theory Spec2Isabelle
  imports Complex_Main
begin

section \<open>Machine arithmetic\<close>

text \<open>
  Quantities and sizes are \<^verbatim>\<open>int32\<close>. They are integers here, and the one subtraction
  that can leave the range, \<^verbatim>\<open>Quantity - ActualAmountToRemove\<close>, wraps around as the
  two's complement machine does. An array of \<^verbatim>\<open>INT_MAX\<close> pointers is beyond any
  inventory, so \<^verbatim>\<open>Num() + 1\<close> is computed on the integers.
\<close>

definition int32_wrap :: "int \<Rightarrow> int" where
  "int32_wrap x = (x + 2147483648) mod 4294967296 - 2147483648"

definition is_int32 :: "int \<Rightarrow> bool" where
  "is_int32 x = (- 2147483648 \<le> x \<and> x \<le> 2147483647)"

text \<open>
  Weights are floating-point numbers (they are passed to \<^verbatim>\<open>FMath::IsNearlyZero\<close> and
  \<^verbatim>\<open>FMath::FloorToInt\<close>); whether \<^verbatim>\<open>float\<close> or \<^verbatim>\<open>double\<close> is declared in the headers,
  which are missing. A weight is modelled by the real number it denotes, and every
  arithmetic result is rounded by the format, which is a parameter \<open>fp\<close> of each
  operation that computes with weights: its rounding function and the value of the
  tolerance literal \<^verbatim>\<open>UE_SMALL_NUMBER\<close> in it. Comparisons of finite values are exact.
  Infinities and NaN are outside the model.
\<close>

record fp_format =
  fp_round :: "real \<Rightarrow> real"
  fp_small_number :: real

definition fadd :: "fp_format \<Rightarrow> real \<Rightarrow> real \<Rightarrow> real" where
  "fadd fp x y = fp_round fp (x + y)"

definition fsub :: "fp_format \<Rightarrow> real \<Rightarrow> real \<Rightarrow> real" where
  "fsub fp x y = fp_round fp (x - y)"

definition fmul :: "fp_format \<Rightarrow> real \<Rightarrow> real \<Rightarrow> real" where
  "fmul fp x y = fp_round fp (x * y)"

text \<open>The conversion of an \<^verbatim>\<open>int32\<close> operand to the floating-point type.\<close>

definition fconv :: "fp_format \<Rightarrow> int \<Rightarrow> real" where
  "fconv fp k = fp_round fp (of_int k)"

text \<open>
  The two binary formats: rounding to nearest, ties to even, to a significand of \<open>p\<close>
  bits (24 for \<^verbatim>\<open>float\<close>, 53 for \<^verbatim>\<open>double\<close>). The exponent is unbounded here, which
  agrees with the machine on the normal range; every value of the examples below lies
  in it. The tolerance is the literal \<^verbatim>\<open>1.e-8\<close> in the format.
\<close>

definition pow2 :: "int \<Rightarrow> real" where
  "pow2 k = (if 0 \<le> k then 2 ^ nat k else 1 / 2 ^ nat (- k))"

definition round_half_even :: "real \<Rightarrow> int" where
  "round_half_even x =
     (let f = \<lfloor>x\<rfloor>; d = x - of_int f
      in if d < 1 / 2 then f else if 1 / 2 < d then f + 1 else if even f then f else f + 1)"

definition round_to :: "nat \<Rightarrow> real \<Rightarrow> real" where
  "round_to p x =
     (if x = 0 then 0
      else let u = pow2 (\<lfloor>log 2 \<bar>x\<bar>\<rfloor> - int p + 1)
           in of_int (round_half_even (x / u)) * u)"

definition ieee :: "nat \<Rightarrow> fp_format" where
  "ieee p = \<lparr>fp_round = round_to p, fp_small_number = round_to p (1 / 100000000)\<rparr>"

definition binary32 :: fp_format where
  "binary32 = ieee 24"

definition binary64 :: fp_format where
  "binary64 = ieee 53"

section \<open>Items (\<^verbatim>\<open>UItemBase\<close>)\<close>

text \<open>
  The inventory component \<^verbatim>\<open>UCpp_AC_Inventory\<close> (file
  \<^verbatim>\<open>Private/Components/Cpp_AC_Inventory.cpp\<close>) keeps an array of pointers to
  \<^verbatim>\<open>UItemBase\<close> objects. The item class itself is declared in \<^verbatim>\<open>ItemBase.h\<close>, which
  is not among the sources; its fields are the ones the component reads and writes
  (\<^verbatim>\<open>ID\<close>, \<^verbatim>\<open>Quantity\<close>, \<^verbatim>\<open>ItemNumericData.MaxStackSize\<close>,
  \<^verbatim>\<open>ItemNumericData.bIsStackable\<close>, \<^verbatim>\<open>ItemTextData.ItemName\<close>, \<^verbatim>\<open>bIsCopy\<close>,
  \<^verbatim>\<open>bIsPickup\<close>, \<^verbatim>\<open>OwningInventory\<close>) plus the per-unit weight behind
  \<^verbatim>\<open>GetItemSingleWeight\<close>.
\<close>

record FItemNumericData =
  Weight :: real
  MaxStackSize :: int
  bIsStackable :: bool

record FItemTextData =
  ItemName :: string

datatype owning_inventory = NoInventory | ThisInventory

record UItemBase =
  ID :: string
  Quantity :: int
  ItemNumericData :: FItemNumericData
  ItemTextData :: FItemTextData
  bIsCopy :: bool
  bIsPickup :: bool
  OwningInventory :: owning_inventory

text \<open>
  Modelled from the spec: \<^verbatim>\<open>UItemBase::GetItemSingleWeight\<close> (ItemBase.h is missing).
  "GetSingleWeight() -> weight: returns per-unit weight."
\<close>

definition GetItemSingleWeight :: "UItemBase \<Rightarrow> real" where
  "GetItemSingleWeight it = Weight (ItemNumericData it)"

text \<open>
  Modelled from the spec: \<^verbatim>\<open>UItemBase::GetItemStackWeight\<close> (ItemBase.h is missing).
  An item's total weight is "quantity x per-unit weight": the product of an \<^verbatim>\<open>int32\<close>
  and a floating-point number, computed in floating point.
\<close>

definition GetItemStackWeight :: "fp_format \<Rightarrow> UItemBase \<Rightarrow> real" where
  "GetItemStackWeight fp it = fmul fp (fconv fp (Quantity it)) (Weight (ItemNumericData it))"

text \<open>
  Modelled from the spec: \<^verbatim>\<open>UItemBase::SetQuantity\<close> (ItemBase.cpp is missing).
  "SetQuantity(n): clamps to [0, maxStackSize] if stackable; sets to 1 otherwise. No side
  effects beyond the field."
\<close>

definition SetQuantity :: "int \<Rightarrow> UItemBase \<Rightarrow> UItemBase" where
  "SetQuantity NewQuantity it =
     it\<lparr>Quantity :=
          (if bIsStackable (ItemNumericData it)
           then max 0 (min NewQuantity (MaxStackSize (ItemNumericData it)))
           else 1)\<rparr>"

text \<open>
  Modelled from the spec: \<^verbatim>\<open>UItemBase::IsFullItemStack\<close> (ItemBase.h is missing).
  "IsFullStack() -> bool: quantity == maxStackSize (stackable only; non-stackable items
  are never full in the stacking sense)."
\<close>

definition IsFullItemStack :: "UItemBase \<Rightarrow> bool" where
  "IsFullItemStack it =
     (bIsStackable (ItemNumericData it) \<and> Quantity it = MaxStackSize (ItemNumericData it))"

text \<open>
  Modelled from the spec: \<^verbatim>\<open>UItemBase::ResetItemFlags\<close> (ItemBase.cpp is missing).
  An absorbed instance has "its provenance flags" cleared.
\<close>

definition ResetItemFlags :: "UItemBase \<Rightarrow> UItemBase" where
  "ResetItemFlags it = it\<lparr>bIsCopy := False, bIsPickup := False\<rparr>"

text \<open>
  Modelled from the spec: \<^verbatim>\<open>UItemBase::CreateItemCopy\<close> (ItemBase.cpp is missing).
  "CreateCopy() -> Item: produces a new Item with identical kind/weight/stack data ...,
  isCopy = true, no owner." The component calls it without an amount and sets the
  quantity itself, right after.
\<close>

definition CreateItemCopy :: "UItemBase \<Rightarrow> UItemBase" where
  "CreateItemCopy it = it\<lparr>bIsCopy := True, bIsPickup := False, OwningInventory := NoInventory\<rparr>"

section \<open>Engine helpers\<close>

text \<open>
  \<^verbatim>\<open>FMath::IsNearlyZero(x)\<close> of the engine is \<^verbatim>\<open>Abs(x) <= UE_SMALL_NUMBER\<close>, the
  tolerance being \<^verbatim>\<open>1.e-8\<close> in the format of \<^verbatim>\<open>x\<close>.
\<close>

definition IsNearlyZero :: "fp_format \<Rightarrow> real \<Rightarrow> bool" where
  "IsNearlyZero fp x = (\<bar>x\<bar> \<le> fp_small_number fp)"

text \<open>
  \<^verbatim>\<open>FText::Format(FText::FromString(pattern), args...)\<close> is kept symbolic: the pattern
  and its ordered arguments.
\<close>

datatype FFormatArg = ArgText string | ArgInt int

datatype FText = FromString string | Format FText "FFormatArg list"

text \<open>
  \<^verbatim>\<open>FItemAddResult\<close> through its three static factories, each a tag with its payload.
\<close>

datatype FItemAddResult =
    AddedNone FText
  | AddedSome int FText
  | AddedAll int FText

fun is_AddedNone :: "FItemAddResult \<Rightarrow> bool" where
  "is_AddedNone (AddedNone m) = True"
| "is_AddedNone (AddedSome n m) = False"
| "is_AddedNone (AddedAll n m) = False"

section \<open>The component and the object store\<close>

text \<open>
  Items are heap objects and the component holds pointers to them, so the model has an
  explicit store: \<open>Objects\<close> lists every \<^verbatim>\<open>UItemBase\<close> allocated so far and an address is
  an index into it. A \<^verbatim>\<open>UItemBase*\<close> argument is \<open>None\<close> for \<^verbatim>\<open>nullptr\<close> and
  \<open>Some a\<close> for address \<open>a\<close>. The remaining fields are the component's own:
  \<^verbatim>\<open>InventoryContents\<close> (a \<^verbatim>\<open>TArray\<close> of object pointers, none of them null: the
  one insertion, in \<^verbatim>\<open>AddNewItem\<close>, adds a pointer it has just written through),
  \<^verbatim>\<open>InventoryTotalWeight\<close>, \<^verbatim>\<open>InventorySlotsCapacity\<close>, the weight capacity read by
  \<^verbatim>\<open>GetWeightCapacity()\<close>, whether \<^verbatim>\<open>GetOwner()\<close> is non-null, and the number of times
  \<^verbatim>\<open>OnInventoryUpdated.Broadcast()\<close> has run.
\<close>

type_synonym item_ptr = "nat option"

record world =
  Objects :: "UItemBase list"
  InventoryContents :: "nat list"
  InventoryTotalWeight :: real
  InventorySlotsCapacity :: int
  InventoryWeightCapacity :: real
  HasOwner :: bool
  BroadcastCount :: nat

datatype fault = NullDereference | InvalidPointer

text \<open>Dereferencing a pointer: null and dangling pointers are faults.\<close>

definition with_item :: "world \<Rightarrow> item_ptr \<Rightarrow> (nat \<Rightarrow> UItemBase \<Rightarrow> fault + 'a) \<Rightarrow> fault + 'a" where
  "with_item s p f =
     (case p of
        None \<Rightarrow> Inl NullDereference
      | Some a \<Rightarrow> if a < length (Objects s) then f a (Objects s ! a) else Inl InvalidPointer)"

definition update_item :: "nat \<Rightarrow> (UItemBase \<Rightarrow> UItemBase) \<Rightarrow> world \<Rightarrow> world" where
  "update_item a f s = s\<lparr>Objects := (Objects s)[a := f (Objects s ! a)]\<rparr>"

text \<open>\<^verbatim>\<open>NewObject<UItemBase>\<close>: a fresh address, the next index of the store.\<close>

definition NewObject :: "UItemBase \<Rightarrow> world \<Rightarrow> nat \<times> world" where
  "NewObject it s = (length (Objects s), s\<lparr>Objects := Objects s @ [it]\<rparr>)"

definition OnInventoryUpdated_Broadcast :: "world \<Rightarrow> world" where
  "OnInventoryUpdated_Broadcast s = s\<lparr>BroadcastCount := Suc (BroadcastCount s)\<rparr>"

definition GetWeightCapacity :: "world \<Rightarrow> real" where
  "GetWeightCapacity s = InventoryWeightCapacity s"

section \<open>Queries\<close>

text \<open>
  The three queries are \<^verbatim>\<open>const\<close> methods. They are written in the same state-passing
  form as the mutating operations, returning the world they were given.
\<close>

definition FindMatchingItem :: "item_ptr \<Rightarrow> world \<Rightarrow> fault + (item_ptr \<times> world)" where
  "FindMatchingItem InItem s =
     (case InItem of
        None \<Rightarrow> Inr (None, s)
      | Some a \<Rightarrow> if a \<in> set (InventoryContents s) then Inr (Some a, s) else Inr (None, s))"

text \<open>
  \<^verbatim>\<open>TArray::FindByKey\<close> compares each element with the key by \<^verbatim>\<open>==\<close>. The elements
  are \<^verbatim>\<open>TObjectPtr<UItemBase>\<close> and the key is a \<^verbatim>\<open>UItemBase*\<close>, so it is addresses
  that are compared, whatever operator \<^verbatim>\<open>UItemBase\<close> itself overloads: the first
  entry that is the given instance.
\<close>

fun FindByKey :: "nat \<Rightarrow> nat list \<Rightarrow> item_ptr" where
  "FindByKey key [] = None"
| "FindByKey key (x # xs) = (if x = key then Some x else FindByKey key xs)"

definition FindNextItemByID :: "item_ptr \<Rightarrow> world \<Rightarrow> fault + (item_ptr \<times> world)" where
  "FindNextItemByID InItem s =
     (case InItem of
        None \<Rightarrow> Inr (None, s)
      | Some a \<Rightarrow> Inr (FindByKey a (InventoryContents s), s))"

text \<open>
  \<^verbatim>\<open>FindByPredicate\<close> with the lambda of \<^verbatim>\<open>FindNextPartialStack\<close>: for each element
  in order it evaluates \<^verbatim>\<open>InventoryItem->ID == InItem->ID && !InventoryItem->IsFullItemStack()\<close>,
  which reads through \<^verbatim>\<open>InItem\<close> without any test of the pointer.
\<close>

fun FindByPredicate_PartialStack :: "world \<Rightarrow> item_ptr \<Rightarrow> nat list \<Rightarrow> fault + item_ptr" where
  "FindByPredicate_PartialStack s InItem [] = Inr None"
| "FindByPredicate_PartialStack s InItem (x # xs) =
     with_item s (Some x) (\<lambda>b InventoryItem.
       with_item s InItem (\<lambda>a it.
         if ID InventoryItem = ID it \<and> \<not> IsFullItemStack InventoryItem
         then Inr (Some x)
         else FindByPredicate_PartialStack s InItem xs))"

definition FindNextPartialStack :: "item_ptr \<Rightarrow> world \<Rightarrow> fault + (item_ptr \<times> world)" where
  "FindNextPartialStack InItem s =
     (case FindByPredicate_PartialStack s InItem (InventoryContents s) of
        Inl e \<Rightarrow> Inl e
      | Inr Result \<Rightarrow> Inr (Result, s))"

section \<open>Mutating operations\<close>

text \<open>\<^verbatim>\<open>TArray::RemoveSingle\<close> compares pointers and removes the first match.\<close>

definition RemoveSingleInstanceOfItem :: "item_ptr \<Rightarrow> world \<Rightarrow> fault + world" where
  "RemoveSingleInstanceOfItem ItemToRemove s =
     Inr (OnInventoryUpdated_Broadcast
       (s\<lparr>InventoryContents :=
            (case ItemToRemove of
               None \<Rightarrow> InventoryContents s
             | Some a \<Rightarrow> remove1 a (InventoryContents s))\<rparr>))"

definition RemoveAmountOfItem ::
  "fp_format \<Rightarrow> item_ptr \<Rightarrow> int \<Rightarrow> world \<Rightarrow> fault + (int \<times> world)" where
  "RemoveAmountOfItem fp InItem AmountToRemove s =
     with_item s InItem (\<lambda>a it.
       let ActualAmountToRemove = min AmountToRemove (Quantity it);
           s1 = update_item a
                  (SetQuantity (int32_wrap (Quantity it - ActualAmountToRemove))) s;
           s2 = s1\<lparr>InventoryTotalWeight :=
                   fsub fp (InventoryTotalWeight s1)
                     (fmul fp (fconv fp ActualAmountToRemove)
                        (GetItemSingleWeight (Objects s1 ! a)))\<rparr>
       in Inr (ActualAmountToRemove, OnInventoryUpdated_Broadcast s2))"

definition AddNewItem :: "fp_format \<Rightarrow> item_ptr \<Rightarrow> int \<Rightarrow> world \<Rightarrow> fault + world" where
  "AddNewItem fp InItem AddAmount s =
     with_item s InItem (\<lambda>a it.
       let (NewItem, s1) =
             (if bIsCopy it \<or> bIsPickup it
              then (a, update_item a ResetItemFlags s)
              else NewObject (CreateItemCopy it) s);
           s2 = update_item NewItem (\<lambda>x. x\<lparr>OwningInventory := ThisInventory\<rparr>) s1;
           s3 = update_item NewItem (SetQuantity AddAmount) s2;
           s4 = s3\<lparr>InventoryContents := InventoryContents s3 @ [NewItem]\<rparr>;
           s5 = s4\<lparr>InventoryTotalWeight :=
                   fadd fp (InventoryTotalWeight s4)
                     (GetItemStackWeight fp (Objects s4 ! NewItem))\<rparr>
       in Inr (OnInventoryUpdated_Broadcast s5))"

definition SplitExistingStack ::
  "fp_format \<Rightarrow> item_ptr \<Rightarrow> int \<Rightarrow> world \<Rightarrow> fault + world" where
  "SplitExistingStack fp InItem AmountToSplit s =
     (if \<not> (int (length (InventoryContents s)) + 1 > InventorySlotsCapacity s)
      then (case RemoveAmountOfItem fp InItem AmountToSplit s of
              Inl e \<Rightarrow> Inl e
            | Inr (r, s1) \<Rightarrow> AddNewItem fp InItem AmountToSplit s1)
      else Inr s)"

definition HandleNonStackableItems ::
  "fp_format \<Rightarrow> item_ptr \<Rightarrow> world \<Rightarrow> fault + (FItemAddResult \<times> world)" where
  "HandleNonStackableItems fp InItem s =
     with_item s InItem (\<lambda>a it.
       if IsNearlyZero fp (GetItemSingleWeight it) \<or> GetItemSingleWeight it < 0
       then Inr (AddedNone (Format
              (FromString ''Could not add {0} to the inventory. Item Has No Weight!'')
              [ArgText (ItemName (ItemTextData it))]), s)
       else if fadd fp (InventoryTotalWeight s) (GetItemSingleWeight it) > GetWeightCapacity s
       then Inr (AddedNone (Format
              (FromString ''Could not add {0} to the inventory. Item overflows weight limit!'')
              [ArgText (ItemName (ItemTextData it))]), s)
       else if int (length (InventoryContents s)) + 1 > InventorySlotsCapacity s
       then Inr (AddedNone (Format
              (FromString ''Could not add {0} to the inventory. No Free Inventory Slot!'')
              [ArgText (ItemName (ItemTextData it))]), s)
       else (case AddNewItem fp InItem 1 s of
               Inl e \<Rightarrow> Inl e
             | Inr s1 \<Rightarrow>
                 Inr (AddedAll 1 (Format
                   (FromString ''Successfully added {0} to the inventory!'')
                   [ArgText (ItemName (ItemTextData (Objects s1 ! a)))]), s1)))"

text \<open>
  The body of \<^verbatim>\<open>HandleStackableItems\<close> is the single statement \<^verbatim>\<open>return 0;\<close>.
  The two helpers written for it, \<^verbatim>\<open>CalculateWeightAddAmount\<close> and
  \<^verbatim>\<open>CalculateNumberForFullStack\<close>, are called from nowhere and take no part in any
  operation below.
\<close>

definition HandleStackableItems :: "item_ptr \<Rightarrow> int \<Rightarrow> world \<Rightarrow> fault + (int \<times> world)" where
  "HandleStackableItems InItem AddAmount s = Inr (0, s)"

definition HandleAddItem ::
  "fp_format \<Rightarrow> item_ptr \<Rightarrow> world \<Rightarrow> fault + (FItemAddResult \<times> world)" where
  "HandleAddItem fp InItem s =
     (if HasOwner s
      then with_item s InItem (\<lambda>a it.
        let InitialRequestedAddAmount = Quantity it in
        if \<not> bIsStackable (ItemNumericData it)
        then HandleNonStackableItems fp InItem s
        else (case HandleStackableItems InItem InitialRequestedAddAmount s of
                Inl e \<Rightarrow> Inl e
              | Inr (StackableAmountAdded, s1) \<Rightarrow>
                  if StackableAmountAdded = InitialRequestedAddAmount
                  then Inr (AddedAll InitialRequestedAddAmount (Format
                         (FromString ''Successfully added {0} {1} to the inventory!'')
                         [ArgText (ItemName (ItemTextData (Objects s1 ! a))),
                          ArgInt StackableAmountAdded]), s1)
                  else if StackableAmountAdded < InitialRequestedAddAmount
                          \<and> StackableAmountAdded > 0
                  then Inr (AddedSome StackableAmountAdded (Format
                         (FromString ''Could not add all {0} to the inventory. Added {1} {0} instead!'')
                         [ArgText (ItemName (ItemTextData (Objects s1 ! a))),
                          ArgInt StackableAmountAdded]), s1)
                  else Inr (AddedNone (Format
                         (FromString ''Could not add {0} to the inventory. No Remaining Slots / Invalid Item!'')
                         [ArgText (ItemName (ItemTextData (Objects s1 ! a)))]), s1)))
      else Inr (AddedNone (FromString ''Could not add item to the inventory. No Owner Found!''), s))"

section \<open>Sequences of operations\<close>

text \<open>
  The operations the interaction and UI layer invokes on the component, as data, so that
  a property can be stated for every one of them and for every sequence.
\<close>

datatype operation =
    OpHandleAddItem item_ptr
  | OpRemoveAmountOfItem item_ptr int
  | OpRemoveSingleInstanceOfItem item_ptr
  | OpSplitExistingStack item_ptr int

definition apply_operation :: "fp_format \<Rightarrow> operation \<Rightarrow> world \<Rightarrow> fault + world" where
  "apply_operation fp op s =
     (case op of
        OpHandleAddItem p \<Rightarrow>
          (case HandleAddItem fp p s of Inl e \<Rightarrow> Inl e | Inr (r, s') \<Rightarrow> Inr s')
      | OpRemoveAmountOfItem p n \<Rightarrow>
          (case RemoveAmountOfItem fp p n s of Inl e \<Rightarrow> Inl e | Inr (r, s') \<Rightarrow> Inr s')
      | OpRemoveSingleInstanceOfItem p \<Rightarrow> RemoveSingleInstanceOfItem p s
      | OpSplitExistingStack p n \<Rightarrow> SplitExistingStack fp p n s)"

fun run :: "fp_format \<Rightarrow> operation list \<Rightarrow> world \<Rightarrow> fault + world" where
  "run fp [] s = Inr s"
| "run fp (op # ops) s =
     (case apply_operation fp op s of Inl e \<Rightarrow> Inl e | Inr s' \<Rightarrow> run fp ops s')"

section \<open>Invariants and postconditions\<close>

text \<open>
  The true weight of the contents: the sum of quantity times per-unit weight, in exact
  arithmetic.
\<close>

definition contents_weight :: "world \<Rightarrow> real" where
  "contents_weight s =
     sum_list (map (\<lambda>a. real_of_int (Quantity (Objects s ! a))
                         * Weight (ItemNumericData (Objects s ! a)))
                (InventoryContents s))"

definition weight_consistent :: "world \<Rightarrow> bool" where
  "weight_consistent s = (InventoryTotalWeight s = contents_weight s)"

definition slots_respected :: "world \<Rightarrow> bool" where
  "slots_respected s = (int (length (InventoryContents s)) \<le> InventorySlotsCapacity s)"

text \<open>
  Two entries (two positions of \<^verbatim>\<open>InventoryContents\<close>) hold items of the given ID whose
  quantities add up to \<open>q\<close>.
\<close>

definition two_entries_sum :: "world \<Rightarrow> string \<Rightarrow> int \<Rightarrow> bool" where
  "two_entries_sum s ident q =
     (\<exists>i \<in> {..<length (InventoryContents s)}. \<exists>j \<in> {..<length (InventoryContents s)}.
        i \<noteq> j
        \<and> ID (Objects s ! (InventoryContents s ! i)) = ident
        \<and> ID (Objects s ! (InventoryContents s ! j)) = ident
        \<and> Quantity (Objects s ! (InventoryContents s ! i))
            + Quantity (Objects s ! (InventoryContents s ! j)) = q)"

text \<open>Every entry of the contents is an allocated object.\<close>

definition entries_valid :: "world \<Rightarrow> bool" where
  "entries_valid s = list_all (\<lambda>a. a < length (Objects s)) (InventoryContents s)"

section \<open>Example items and worlds\<close>

definition potion :: UItemBase where
  "potion =
     \<lparr>ID = ''potion'', Quantity = 6,
      ItemNumericData = \<lparr>Weight = 10, MaxStackSize = 10, bIsStackable = True\<rparr>,
      ItemTextData = \<lparr>ItemName = ''Potion''\<rparr>,
      bIsCopy = False, bIsPickup = False, OwningInventory = NoInventory\<rparr>"

definition sword :: UItemBase where
  "sword =
     \<lparr>ID = ''sword'', Quantity = 1,
      ItemNumericData = \<lparr>Weight = 20, MaxStackSize = 1, bIsStackable = False\<rparr>,
      ItemTextData = \<lparr>ItemName = ''Sword''\<rparr>,
      bIsCopy = False, bIsPickup = True, OwningInventory = NoInventory\<rparr>"

text \<open>
  A non-stackable item whose weight, 1/268435456 (two to the power -28), is positive and
  below the engine's tolerance.
\<close>

definition dust :: UItemBase where
  "dust =
     \<lparr>ID = ''dust'', Quantity = 1,
      ItemNumericData = \<lparr>Weight = 1 / 268435456, MaxStackSize = 1, bIsStackable = False\<rparr>,
      ItemTextData = \<lparr>ItemName = ''Dust''\<rparr>,
      bIsCopy = False, bIsPickup = True, OwningInventory = NoInventory\<rparr>"

text \<open>An owned, empty inventory in a store that holds the given objects.\<close>

definition new_world :: "UItemBase list \<Rightarrow> int \<Rightarrow> real \<Rightarrow> world" where
  "new_world objs slots cap =
     \<lparr>Objects = objs, InventoryContents = [], InventoryTotalWeight = 0,
      InventorySlotsCapacity = slots, InventoryWeightCapacity = cap,
      HasOwner = True, BroadcastCount = 0\<rparr>"

text \<open>The sword picked up: the pickup instance itself is absorbed, its flags reset.\<close>

definition sword_held :: world where
  "sword_held =
     \<lparr>Objects = [sword\<lparr>bIsPickup := False, OwningInventory := ThisInventory\<rparr>],
      InventoryContents = [0], InventoryTotalWeight = 20,
      InventorySlotsCapacity = 3, InventoryWeightCapacity = 100,
      HasOwner = True, BroadcastCount = 1\<rparr>"

text \<open>
  Six potions added from the template at address 0: the contained stack is the copy at
  address 1, which \<^verbatim>\<open>CreateItemCopy\<close> flagged as a copy.
\<close>

definition potion_held :: world where
  "potion_held =
     \<lparr>Objects = [potion, potion\<lparr>bIsCopy := True, OwningInventory := ThisInventory\<rparr>],
      InventoryContents = [1], InventoryTotalWeight = 60,
      InventorySlotsCapacity = 3, InventoryWeightCapacity = 100,
      HasOwner = True, BroadcastCount = 1\<rparr>"

text \<open>A contained stack of six potions with both provenance flags clear.\<close>

definition potion_stack :: world where
  "potion_stack =
     \<lparr>Objects = [potion\<lparr>OwningInventory := ThisInventory\<rparr>],
      InventoryContents = [0], InventoryTotalWeight = 60,
      InventorySlotsCapacity = 3, InventoryWeightCapacity = 100,
      HasOwner = True, BroadcastCount = 1\<rparr>"

text \<open>A contained full stack of ten potions.\<close>

definition potion_full :: world where
  "potion_full =
     \<lparr>Objects = [potion\<lparr>Quantity := 10, OwningInventory := ThisInventory\<rparr>],
      InventoryContents = [0], InventoryTotalWeight = 100,
      InventorySlotsCapacity = 3, InventoryWeightCapacity = 100,
      HasOwner = True, BroadcastCount = 1\<rparr>"

text \<open>
  The stack of \<open>potion_stack\<close> after two potions were split off: a second object, a copy,
  holds them.
\<close>

definition potion_split :: world where
  "potion_split =
     \<lparr>Objects = [potion\<lparr>Quantity := 4, OwningInventory := ThisInventory\<rparr>,
                 potion\<lparr>Quantity := 2, bIsCopy := True, OwningInventory := ThisInventory\<rparr>],
      InventoryContents = [0, 1], InventoryTotalWeight = 60,
      InventorySlotsCapacity = 3, InventoryWeightCapacity = 100,
      HasOwner = True, BroadcastCount = 3\<rparr>"

text \<open>
  The stack of \<open>potion_held\<close> after the same split: the one object at address 1 is listed
  twice.
\<close>

definition potion_aliased :: world where
  "potion_aliased =
     \<lparr>Objects = [potion, potion\<lparr>Quantity := 2, OwningInventory := ThisInventory\<rparr>],
      InventoryContents = [1, 1], InventoryTotalWeight = 60,
      InventorySlotsCapacity = 3, InventoryWeightCapacity = 100,
      HasOwner = True, BroadcastCount = 3\<rparr>"

text \<open>
  A full inventory of weight \<open>2^27\<close>: one ingot, held, and a grain of weight
  1/67108864 (two to the power -26, above the tolerance) lying in the world.
\<close>

definition ingot :: UItemBase where
  "ingot =
     \<lparr>ID = ''ingot'', Quantity = 1,
      ItemNumericData = \<lparr>Weight = 134217728, MaxStackSize = 1, bIsStackable = False\<rparr>,
      ItemTextData = \<lparr>ItemName = ''Ingot''\<rparr>,
      bIsCopy = False, bIsPickup = False, OwningInventory = ThisInventory\<rparr>"

definition grain :: UItemBase where
  "grain =
     \<lparr>ID = ''grain'', Quantity = 1,
      ItemNumericData = \<lparr>Weight = 1 / 67108864, MaxStackSize = 1, bIsStackable = False\<rparr>,
      ItemTextData = \<lparr>ItemName = ''Grain''\<rparr>,
      bIsCopy = False, bIsPickup = True, OwningInventory = NoInventory\<rparr>"

definition ingot_held :: world where
  "ingot_held =
     \<lparr>Objects = [ingot, grain],
      InventoryContents = [0], InventoryTotalWeight = 134217728,
      InventorySlotsCapacity = 3, InventoryWeightCapacity = 134217728,
      HasOwner = True, BroadcastCount = 1\<rparr>"






lemmas item_defs = SetQuantity_def GetItemSingleWeight_def GetItemStackWeight_def
  CreateItemCopy_def ResetItemFlags_def IsFullItemStack_def

lemmas example_defs = potion_def sword_def dust_def new_world_def sword_held_def
  potion_held_def potion_stack_def potion_full_def potion_split_def potion_aliased_def
  ingot_def grain_def ingot_held_def

section \<open>Facts of the arithmetic\<close>

lemma int32_wrap_id: "is_int32 x \<Longrightarrow> int32_wrap x = x"
  by (simp add: int32_wrap_def is_int32_def)

lemma pow2_powr: "pow2 k = 2 powr (of_int k)"
  by (simp add: pow2_def powr_realpow [symmetric] powr_minus_divide)

lemma pow2_pos: "0 < pow2 k"
  by (simp add: pow2_powr)

text \<open>Rounding a number whose binade is known.\<close>

lemma round_to_binade:
  assumes "pow2 e \<le> \<bar>x\<bar>" and "\<bar>x\<bar> < pow2 (e + 1)"
  shows "round_to p x = of_int (round_half_even (x / pow2 (e - int p + 1))) * pow2 (e - int p + 1)"
proof -
  from assms(1) pow2_pos [of e] have nz: "x \<noteq> 0" by auto
  then have pos: "0 < \<bar>x\<bar>" by simp
  have "\<lfloor>log 2 \<bar>x\<bar>\<rfloor> = e"
    using assms floor_log_eq_powr_iff [of "\<bar>x\<bar>" 2 e] pos
    by (simp add: pow2_powr)
  with nz show ?thesis by (simp add: round_to_def Let_def)
qed

lemma round_half_even_int: "round_half_even (of_int k) = k"
  by (simp add: round_half_even_def)

text \<open>An integer that fits the significand is not changed by rounding.\<close>

lemma round_to_of_int:
  assumes "\<bar>k\<bar> < 2 ^ p"
  shows "round_to p (of_int k) = of_int k"
proof (cases "k = 0")
  case True
  then show ?thesis by (simp add: round_to_def)
next
  case False
  define x :: real where "x = \<bar>of_int k\<bar>"
  define b where "b = \<lfloor>log 2 x\<rfloor>"
  from False have x1: "1 \<le> x" by (simp add: x_def)
  from assms have xp: "x < 2 ^ p"
    unfolding x_def by (metis of_int_abs of_int_less_numeral_power_cancel_iff)
  have b0: "0 \<le> b" using x1 by (simp add: b_def)
  have "log 2 x < real p"
    using xp x1 by (simp add: log_less_iff powr_realpow)
  then have bp: "b < int p" unfolding b_def by linarith
  define n where "n = nat (int p - 1 - b)"
  have u: "pow2 (b - int p + 1) = 1 / 2 ^ n"
  proof (cases "b - int p + 1 = 0")
    case True
    then show ?thesis by (simp add: pow2_def n_def)
  next
    case False
    with bp have "b - int p + 1 < 0" by simp
    moreover have "nat (- (b - int p + 1)) = n" by (simp add: n_def)
    ultimately show ?thesis by (simp add: pow2_def)
  qed
  have "of_int k / pow2 (b - int p + 1) = real_of_int (k * 2 ^ n)"
    by (simp add: u)
  then have "round_half_even (of_int k / pow2 (b - int p + 1)) = k * 2 ^ n"
    by (simp only: round_half_even_int)
  then have "real_of_int (round_half_even (of_int k / pow2 (b - int p + 1))) * pow2 (b - int p + 1)
      = of_int k"
    by (simp add: u)
  with False show ?thesis
    by (simp add: round_to_def Let_def b_def x_def)
qed

lemma round_to_numeral [simp]:
  "numeral n < (2::int) ^ p \<Longrightarrow> round_to p (numeral n) = numeral n"
  using round_to_of_int [of "numeral n" p] by simp

lemma round_to_neg_numeral [simp]:
  "numeral n < (2::int) ^ p \<Longrightarrow> round_to p (- numeral n) = - numeral n"
  using round_to_of_int [of "- numeral n" p] by simp

lemma round_to_0 [simp]: "round_to p 0 = 0"
  by (simp add: round_to_def)

lemma round_to_1 [simp]: "0 < p \<Longrightarrow> round_to p 1 = 1"
  using round_to_of_int [of 1 p] by simp

lemma round_to_minus_1 [simp]: "0 < p \<Longrightarrow> round_to p (- 1) = - 1"
  using round_to_of_int [of "- 1" p] by simp

text \<open>The tolerance literal in the two formats.\<close>

lemma small_number_binary32: "fp_small_number binary32 = 11258999 / 2 ^ 50"
  using round_to_binade [of "- 27" "1 / 100000000" 24]
  by (simp add: binary32_def ieee_def pow2_def round_half_even_def)

lemma small_number_binary64: "fp_small_number binary64 = 6044629098073146 / 2 ^ 79"
  using round_to_binade [of "- 27" "1 / 100000000" 53]
  by (simp add: binary64_def ieee_def pow2_def round_half_even_def)

section \<open>What each operation computes\<close>

lemma with_item_Inr:
  "with_item s p f = Inr y \<Longrightarrow>
     \<exists>a. p = Some a \<and> a < length (Objects s) \<and> f a (Objects s ! a) = Inr y"
  by (auto simp: with_item_def split: option.splits if_splits)

lemma RemoveSingleInstanceOfItem_valid:
  "RemoveSingleInstanceOfItem p s =
     Inr (s\<lparr>InventoryContents :=
              (case p of None \<Rightarrow> InventoryContents s | Some a \<Rightarrow> remove1 a (InventoryContents s)),
            BroadcastCount := Suc (BroadcastCount s)\<rparr>)"
  by (simp add: RemoveSingleInstanceOfItem_def OnInventoryUpdated_Broadcast_def)

lemma RemoveAmountOfItem_valid:
  assumes "a < length (Objects s)"
  shows "RemoveAmountOfItem fp (Some a) n s =
    Inr (min n (Quantity (Objects s ! a)),
         s\<lparr>Objects := (Objects s)[a := SetQuantity
                (int32_wrap (Quantity (Objects s ! a) - min n (Quantity (Objects s ! a))))
                (Objects s ! a)],
           InventoryTotalWeight := fsub fp (InventoryTotalWeight s)
              (fmul fp (fconv fp (min n (Quantity (Objects s ! a))))
                 (GetItemSingleWeight (Objects s ! a))),
           BroadcastCount := Suc (BroadcastCount s)\<rparr>)"
  using assms
  by (simp add: RemoveAmountOfItem_def with_item_def update_item_def Let_def
      OnInventoryUpdated_Broadcast_def GetItemSingleWeight_def SetQuantity_def)

lemma AddNewItem_absorb:
  assumes "a < length (Objects s)" and "bIsCopy (Objects s ! a) \<or> bIsPickup (Objects s ! a)"
  shows "AddNewItem fp (Some a) n s =
    Inr (s\<lparr>Objects := (Objects s)[a := SetQuantity n
                ((ResetItemFlags (Objects s ! a))\<lparr>OwningInventory := ThisInventory\<rparr>)],
           InventoryContents := InventoryContents s @ [a],
           InventoryTotalWeight := fadd fp (InventoryTotalWeight s)
              (GetItemStackWeight fp (SetQuantity n
                  ((ResetItemFlags (Objects s ! a))\<lparr>OwningInventory := ThisInventory\<rparr>))),
           BroadcastCount := Suc (BroadcastCount s)\<rparr>)"
  using assms
  by (simp add: AddNewItem_def with_item_def update_item_def Let_def
      OnInventoryUpdated_Broadcast_def)

lemma AddNewItem_copy:
  assumes "a < length (Objects s)"
    and "\<not> bIsCopy (Objects s ! a)" and "\<not> bIsPickup (Objects s ! a)"
  shows "AddNewItem fp (Some a) n s =
    Inr (s\<lparr>Objects := Objects s @ [SetQuantity n
                ((CreateItemCopy (Objects s ! a))\<lparr>OwningInventory := ThisInventory\<rparr>)],
           InventoryContents := InventoryContents s @ [length (Objects s)],
           InventoryTotalWeight := fadd fp (InventoryTotalWeight s)
              (GetItemStackWeight fp (SetQuantity n
                  ((CreateItemCopy (Objects s ! a))\<lparr>OwningInventory := ThisInventory\<rparr>))),
           BroadcastCount := Suc (BroadcastCount s)\<rparr>)"
  using assms
  by (simp add: AddNewItem_def with_item_def update_item_def Let_def NewObject_def
      OnInventoryUpdated_Broadcast_def)

text \<open>Whichever branch \<^verbatim>\<open>AddNewItem\<close> takes, a valid pointer gives one more entry and one broadcast.\<close>

lemma AddNewItem_facts:
  assumes "a < length (Objects s)"
  shows "\<exists>s'. AddNewItem fp (Some a) n s = Inr s'
     \<and> length (InventoryContents s') = Suc (length (InventoryContents s))
     \<and> InventorySlotsCapacity s' = InventorySlotsCapacity s
     \<and> BroadcastCount s' = Suc (BroadcastCount s)
     \<and> length (Objects s) \<le> length (Objects s')"
proof (cases "bIsCopy (Objects s ! a) \<or> bIsPickup (Objects s ! a)")
  case True
  then show ?thesis using assms by (simp add: AddNewItem_absorb)
next
  case False
  then show ?thesis using assms by (simp add: AddNewItem_copy)
qed

lemma AddNewItem_Inr:
  assumes "AddNewItem fp p n s = Inr s'"
  shows "length (InventoryContents s') = Suc (length (InventoryContents s))
     \<and> InventorySlotsCapacity s' = InventorySlotsCapacity s"
proof -
  from assms obtain a where "p = Some a" "a < length (Objects s)"
    unfolding AddNewItem_def by (blast dest: with_item_Inr)
  with AddNewItem_facts [of a s fp n] assms show ?thesis by auto
qed

lemma AddNewItem_keeps_name:
  assumes "a < length (Objects s)" and "AddNewItem fp (Some a) n s = Inr s'"
  shows "ItemTextData (Objects s' ! a) = ItemTextData (Objects s ! a)"
proof (cases "bIsCopy (Objects s ! a) \<or> bIsPickup (Objects s ! a)")
  case True
  with assms show ?thesis
    by (auto simp: AddNewItem_absorb SetQuantity_def ResetItemFlags_def)
next
  case False
  with assms show ?thesis
    by (auto simp: AddNewItem_copy nth_append)
qed

lemma RemoveAmountOfItem_Inr:
  assumes "RemoveAmountOfItem fp p n s = Inr (r, s')"
  shows "InventoryContents s' = InventoryContents s
     \<and> InventorySlotsCapacity s' = InventorySlotsCapacity s"
proof -
  from assms obtain a where "p = Some a" "a < length (Objects s)"
    unfolding RemoveAmountOfItem_def by (blast dest: with_item_Inr)
  with RemoveAmountOfItem_valid [of a s fp n] assms show ?thesis by auto
qed

lemma HandleNonStackableItems_valid:
  assumes "a < length (Objects s)"
  shows "HandleNonStackableItems fp (Some a) s =
     (if IsNearlyZero fp (GetItemSingleWeight (Objects s ! a))
         \<or> GetItemSingleWeight (Objects s ! a) < 0
      then Inr (AddedNone (Format
              (FromString ''Could not add {0} to the inventory. Item Has No Weight!'')
              [ArgText (ItemName (ItemTextData (Objects s ! a)))]), s)
      else if fadd fp (InventoryTotalWeight s) (GetItemSingleWeight (Objects s ! a))
              > GetWeightCapacity s
      then Inr (AddedNone (Format
              (FromString ''Could not add {0} to the inventory. Item overflows weight limit!'')
              [ArgText (ItemName (ItemTextData (Objects s ! a)))]), s)
      else if int (length (InventoryContents s)) + 1 > InventorySlotsCapacity s
      then Inr (AddedNone (Format
              (FromString ''Could not add {0} to the inventory. No Free Inventory Slot!'')
              [ArgText (ItemName (ItemTextData (Objects s ! a)))]), s)
      else (case AddNewItem fp (Some a) 1 s of
               Inl e \<Rightarrow> Inl e
             | Inr s1 \<Rightarrow>
                 Inr (AddedAll 1 (Format
                   (FromString ''Successfully added {0} to the inventory!'')
                   [ArgText (ItemName (ItemTextData (Objects s1 ! a)))]), s1)))"
  unfolding HandleNonStackableItems_def with_item_def
  using assms by (simp only: option.case if_True)

lemma HandleNonStackableItems_rejects:
  assumes "a < length (Objects s)"
    and "(IsNearlyZero fp (GetItemSingleWeight (Objects s ! a))
            \<or> GetItemSingleWeight (Objects s ! a) < 0)
         \<or> fadd fp (InventoryTotalWeight s) (GetItemSingleWeight (Objects s ! a))
            > GetWeightCapacity s
         \<or> int (length (InventoryContents s)) + 1 > InventorySlotsCapacity s"
  shows "\<exists>m. HandleNonStackableItems fp (Some a) s = Inr (AddedNone m, s)"
  unfolding HandleNonStackableItems_valid [OF assms(1)]
  using assms(2) by (simp only: if_True if_False split: if_split) blast

lemma HandleNonStackableItems_no_weight:
  assumes "a < length (Objects s)"
    and "IsNearlyZero fp (GetItemSingleWeight (Objects s ! a))
            \<or> GetItemSingleWeight (Objects s ! a) < 0"
  shows "HandleNonStackableItems fp (Some a) s =
     Inr (AddedNone (Format
       (FromString ''Could not add {0} to the inventory. Item Has No Weight!'')
       [ArgText (ItemName (ItemTextData (Objects s ! a)))]), s)"
  unfolding HandleNonStackableItems_valid [OF assms(1)]
  using assms(2) by (simp only: if_True)

lemma HandleNonStackableItems_adds:
  assumes "a < length (Objects s)"
    and "\<not> (IsNearlyZero fp (GetItemSingleWeight (Objects s ! a))
            \<or> GetItemSingleWeight (Objects s ! a) < 0)"
    and "\<not> fadd fp (InventoryTotalWeight s) (GetItemSingleWeight (Objects s ! a))
            > GetWeightCapacity s"
    and "\<not> int (length (InventoryContents s)) + 1 > InventorySlotsCapacity s"
  shows "\<exists>s'. AddNewItem fp (Some a) 1 s = Inr s'
     \<and> HandleNonStackableItems fp (Some a) s =
        Inr (AddedAll 1 (Format
          (FromString ''Successfully added {0} to the inventory!'')
          [ArgText (ItemName (ItemTextData (Objects s ! a)))]), s')"
proof -
  from AddNewItem_facts [OF assms(1), of fp 1] obtain s' where
    ad: "AddNewItem fp (Some a) 1 s = Inr s'" by blast
  have "HandleNonStackableItems fp (Some a) s =
        Inr (AddedAll 1 (Format
          (FromString ''Successfully added {0} to the inventory!'')
          [ArgText (ItemName (ItemTextData (Objects s' ! a)))]), s')"
    unfolding HandleNonStackableItems_valid [OF assms(1)]
    using assms(2,3,4) ad
    by (simp only: if_False sum.case)
  with ad AddNewItem_keeps_name [OF assms(1) ad] show ?thesis by simp
qed

lemma HandleAddItem_no_owner:
  "\<not> HasOwner s \<Longrightarrow> HandleAddItem fp p s =
     Inr (AddedNone (FromString ''Could not add item to the inventory. No Owner Found!''), s)"
  by (simp add: HandleAddItem_def)

lemma HandleAddItem_non_stackable:
  assumes "HasOwner s" and "a < length (Objects s)"
    and "\<not> bIsStackable (ItemNumericData (Objects s ! a))"
  shows "HandleAddItem fp (Some a) s = HandleNonStackableItems fp (Some a) s"
  using assms by (simp add: HandleAddItem_def with_item_def)

text \<open>
  With \<^verbatim>\<open>HandleStackableItems\<close> returning 0, a stackable item is reported as added in full
  only when it asks for nothing, and as not added otherwise; the world never changes.
\<close>

lemma HandleAddItem_stackable:
  assumes "HasOwner s" and "a < length (Objects s)"
    and "bIsStackable (ItemNumericData (Objects s ! a))"
  shows "HandleAddItem fp (Some a) s =
     Inr (if Quantity (Objects s ! a) = 0
          then AddedAll 0 (Format
                 (FromString ''Successfully added {0} {1} to the inventory!'')
                 [ArgText (ItemName (ItemTextData (Objects s ! a))), ArgInt 0])
          else AddedNone (Format
                 (FromString ''Could not add {0} to the inventory. No Remaining Slots / Invalid Item!'')
                 [ArgText (ItemName (ItemTextData (Objects s ! a)))]), s)"
  using assms
  by (simp add: HandleAddItem_def with_item_def HandleStackableItems_def)

section \<open>The slot limit, operation by operation\<close>

lemma length_remove1_le: "length (remove1 a xs) \<le> length xs"
  by (induction xs) auto

lemma RemoveAmountOfItem_slots:
  "slots_respected s \<Longrightarrow> RemoveAmountOfItem fp p n s = Inr (r, s') \<Longrightarrow> slots_respected s'"
  by (auto simp: slots_respected_def dest: RemoveAmountOfItem_Inr)

lemma RemoveSingleInstanceOfItem_slots:
  assumes "slots_respected s" and "RemoveSingleInstanceOfItem p s = Inr s'"
  shows "slots_respected s'"
proof -
  have "length (InventoryContents s') \<le> length (InventoryContents s)"
    using assms(2) length_remove1_le [of _ "InventoryContents s"]
    by (cases p) (auto simp: RemoveSingleInstanceOfItem_valid)
  moreover have "InventorySlotsCapacity s' = InventorySlotsCapacity s"
    using assms(2) by (auto simp: RemoveSingleInstanceOfItem_valid)
  ultimately show ?thesis using assms(1) by (simp add: slots_respected_def)
qed

lemma SplitExistingStack_slots:
  assumes "slots_respected s" and "SplitExistingStack fp p n s = Inr s'"
  shows "slots_respected s'"
proof (cases "int (length (InventoryContents s)) + 1 > InventorySlotsCapacity s")
  case True
  with assms show ?thesis by (simp add: SplitExistingStack_def)
next
  case False
  with assms(2) obtain r s1 where rm: "RemoveAmountOfItem fp p n s = Inr (r, s1)"
    and ad: "AddNewItem fp p n s1 = Inr s'"
    by (auto simp: SplitExistingStack_def split: sum.splits)
  from RemoveAmountOfItem_Inr [OF rm] AddNewItem_Inr [OF ad] False
  show ?thesis by (simp add: slots_respected_def)
qed

lemma HandleNonStackableItems_slots:
  assumes "slots_respected s" and "HandleNonStackableItems fp p s = Inr (r, s')"
  shows "slots_respected s'"
proof -
  from assms(2) obtain a where p: "p = Some a" and a: "a < length (Objects s)"
    unfolding HandleNonStackableItems_def by (blast dest: with_item_Inr)
  show ?thesis
  proof (cases "(IsNearlyZero fp (GetItemSingleWeight (Objects s ! a))
            \<or> GetItemSingleWeight (Objects s ! a) < 0)
         \<or> fadd fp (InventoryTotalWeight s) (GetItemSingleWeight (Objects s ! a))
            > GetWeightCapacity s
         \<or> int (length (InventoryContents s)) + 1 > InventorySlotsCapacity s")
    case True
    from HandleNonStackableItems_rejects [OF a True] assms p show ?thesis by auto
  next
    case False
    then have w: "\<not> (IsNearlyZero fp (GetItemSingleWeight (Objects s ! a))
            \<or> GetItemSingleWeight (Objects s ! a) < 0)"
      and c: "\<not> fadd fp (InventoryTotalWeight s) (GetItemSingleWeight (Objects s ! a))
            > GetWeightCapacity s"
      and n: "\<not> int (length (InventoryContents s)) + 1 > InventorySlotsCapacity s"
      by blast+
    from HandleNonStackableItems_adds [OF a w c n] assms(2) p
    have ad: "AddNewItem fp (Some a) 1 s = Inr s'" by auto
    from AddNewItem_Inr [OF ad] n show ?thesis by (simp add: slots_respected_def)
  qed
qed

lemma HandleAddItem_slots:
  assumes "slots_respected s" and "HandleAddItem fp p s = Inr (r, s')"
  shows "slots_respected s'"
proof (cases "HasOwner s")
  case False
  with assms show ?thesis by (simp add: HandleAddItem_no_owner)
next
  case True
  with assms(2) obtain a where p: "p = Some a" and a: "a < length (Objects s)"
    unfolding HandleAddItem_def by (auto dest: with_item_Inr)
  show ?thesis
  proof (cases "bIsStackable (ItemNumericData (Objects s ! a))")
    case True
    from assms HandleAddItem_stackable [OF \<open>HasOwner s\<close> a True] p show ?thesis by simp
  next
    case False
    from assms HandleAddItem_non_stackable [OF \<open>HasOwner s\<close> a False] p show ?thesis
      by (simp add: HandleNonStackableItems_slots)
  qed
qed

lemma apply_operation_slots:
  assumes "slots_respected s" and "apply_operation fp op s = Inr s'"
  shows "slots_respected s'"
proof (cases op)
  case (OpHandleAddItem p)
  with assms(2) obtain r where "HandleAddItem fp p s = Inr (r, s')"
    by (auto simp: apply_operation_def split: sum.splits)
  with assms(1) show ?thesis by (rule HandleAddItem_slots)
next
  case (OpRemoveAmountOfItem p n)
  with assms(2) obtain r where "RemoveAmountOfItem fp p n s = Inr (r, s')"
    by (auto simp: apply_operation_def split: sum.splits)
  with assms(1) show ?thesis by (rule RemoveAmountOfItem_slots)
next
  case (OpRemoveSingleInstanceOfItem p)
  with assms(2) have "RemoveSingleInstanceOfItem p s = Inr s'"
    by (simp add: apply_operation_def)
  with assms(1) show ?thesis by (rule RemoveSingleInstanceOfItem_slots)
next
  case (OpSplitExistingStack p n)
  with assms(2) have "SplitExistingStack fp p n s = Inr s'"
    by (simp add: apply_operation_def)
  with assms(1) show ?thesis by (rule SplitExistingStack_slots)
qed

text \<open>The limit survives every sequence of operations that runs to its end.\<close>

lemma run_slots:
  "slots_respected s \<Longrightarrow> run fp ops s = Inr s' \<Longrightarrow> slots_respected s'"
proof (induction ops arbitrary: s)
  case Nil
  then show ?case by simp
next
  case (Cons op ops)
  from Cons.prems(2) obtain s1 where st: "apply_operation fp op s = Inr s1"
    and rest: "run fp ops s1 = Inr s'"
    by (auto split: sum.splits)
  from apply_operation_slots [OF Cons.prems(1) st] rest show ?case by (rule Cons.IH)
qed

section \<open>The example worlds, computed\<close>

lemma round_to_24_small: "round_to 24 (1 / 100000000) = 11258999 / 2 ^ 50"
  using small_number_binary32 by (simp add: binary32_def ieee_def)

lemma round_to_53_small: "round_to 53 (1 / 100000000) = 6044629098073146 / 2 ^ 79"
  using small_number_binary64 by (simp add: binary64_def ieee_def)

lemmas fp_eval = fadd_def fsub_def fmul_def fconv_def ieee_def IsNearlyZero_def
  round_to_24_small round_to_53_small GetWeightCapacity_def int32_wrap_def

lemma sword_pickup_added:
  assumes "fp = binary32 \<or> fp = binary64"
  shows "HandleAddItem fp (Some 0) (new_world [sword] 3 100) =
     Inr (AddedAll 1 (Format (FromString ''Successfully added {0} to the inventory!'')
            [ArgText ''Sword'']), sword_held)"
  using assms
  by (auto simp: binary32_def binary64_def HandleAddItem_non_stackable
      HandleNonStackableItems_valid AddNewItem_absorb fp_eval item_defs example_defs)

lemma potion_held_reachable:
  assumes "fp = binary32 \<or> fp = binary64"
  shows "AddNewItem fp (Some 0) 6 (new_world [potion] 3 100) = Inr potion_held"
  using assms
  by (auto simp: binary32_def binary64_def AddNewItem_copy fp_eval item_defs example_defs)

lemma potion_stack_split:
  assumes "fp = binary32 \<or> fp = binary64"
  shows "SplitExistingStack fp (Some 0) 2 potion_stack = Inr potion_split"
  using assms
  by (auto simp: binary32_def binary64_def SplitExistingStack_def RemoveAmountOfItem_valid
      AddNewItem_copy fp_eval item_defs example_defs)

lemma potion_held_split:
  assumes "fp = binary32 \<or> fp = binary64"
  shows "SplitExistingStack fp (Some 1) 2 potion_held = Inr potion_aliased"
  using assms
  by (auto simp: binary32_def binary64_def SplitExistingStack_def RemoveAmountOfItem_valid
      AddNewItem_absorb fp_eval item_defs example_defs)

lemma two_entries_sumI:
  assumes "i < length (InventoryContents s)" and "j < length (InventoryContents s)" and "i \<noteq> j"
    and "ID (Objects s ! (InventoryContents s ! i)) = ident"
    and "ID (Objects s ! (InventoryContents s ! j)) = ident"
    and "Quantity (Objects s ! (InventoryContents s ! i))
            + Quantity (Objects s ! (InventoryContents s ! j)) = q"
  shows "two_entries_sum s ident q"
  unfolding two_entries_sum_def using assms by blast

section \<open>The cached total weight\<close>

text \<open>\<^verbatim>\<open>RemoveSingleInstanceOfItem\<close> never touches the cached weight, whatever it removes.\<close>

lemma RemoveSingleInstanceOfItem_weight:
  "RemoveSingleInstanceOfItem p s = Inr s' \<Longrightarrow> InventoryTotalWeight s' = InventoryTotalWeight s"
  by (auto simp: RemoveSingleInstanceOfItem_valid)

text \<open>
  Removing a listed entry leaves the cached weight above the true one by the weight of
  the removed stack: the two agree afterwards only when that stack weighs nothing.
\<close>

lemma RemoveSingleInstanceOfItem_gap:
  assumes "weight_consistent s" and "a \<in> set (InventoryContents s)"
  shows "\<exists>s'. RemoveSingleInstanceOfItem (Some a) s = Inr s'
     \<and> InventoryTotalWeight s' = contents_weight s'
          + real_of_int (Quantity (Objects s ! a)) * Weight (ItemNumericData (Objects s ! a))
     \<and> (weight_consistent s' \<longleftrightarrow>
          real_of_int (Quantity (Objects s ! a)) * Weight (ItemNumericData (Objects s ! a)) = 0)"
proof -
  define s' where "s' = s\<lparr>InventoryContents := remove1 a (InventoryContents s),
            BroadcastCount := Suc (BroadcastCount s)\<rparr>"
  have r: "RemoveSingleInstanceOfItem (Some a) s = Inr s'"
    by (simp add: RemoveSingleInstanceOfItem_valid s'_def)
  have "contents_weight s =
      real_of_int (Quantity (Objects s ! a)) * Weight (ItemNumericData (Objects s ! a))
      + contents_weight s'"
    using assms(2) unfolding contents_weight_def s'_def
    by (simp add: sum_list_map_remove1)
  with assms(1) have g: "InventoryTotalWeight s' = contents_weight s'
      + real_of_int (Quantity (Objects s ! a)) * Weight (ItemNumericData (Objects s ! a))"
    by (simp add: weight_consistent_def s'_def)
  then have "weight_consistent s' \<longleftrightarrow>
      real_of_int (Quantity (Objects s ! a)) * Weight (ItemNumericData (Objects s ! a)) = 0"
    by (simp add: weight_consistent_def)
  with r g show ?thesis by blast
qed

text \<open>
  C1. Claim: after each mutating operation the cached \<^verbatim>\<open>InventoryTotalWeight\<close> equals the
  sum over the contents of quantity times per-unit weight, and in particular
  \<^verbatim>\<open>RemoveSingleInstanceOfItem\<close> preserves the equality.
  The code does not: picking up the sword (weight 20) into an empty inventory gives, in
  either floating-point format, a consistent world with total weight 20;
  \<^verbatim>\<open>RemoveSingleInstanceOfItem\<close> on that sword then empties the contents and leaves the
  total weight at 20, while the contents weigh 0.
\<close>

theorem RemoveSingleInstanceOfItem_leaves_stale_weight:
  "HandleAddItem binary32 (Some 0) (new_world [sword] 3 100) =
     Inr (AddedAll 1 (Format (FromString ''Successfully added {0} to the inventory!'')
            [ArgText ''Sword'']), sword_held)
   \<and> HandleAddItem binary64 (Some 0) (new_world [sword] 3 100) =
     Inr (AddedAll 1 (Format (FromString ''Successfully added {0} to the inventory!'')
            [ArgText ''Sword'']), sword_held)
   \<and> weight_consistent sword_held
   \<and> RemoveSingleInstanceOfItem (Some 0) sword_held =
       Inr (sword_held\<lparr>InventoryContents := [], BroadcastCount := 2\<rparr>)
   \<and> InventoryTotalWeight (sword_held\<lparr>InventoryContents := [], BroadcastCount := 2\<rparr>) = 20
   \<and> contents_weight (sword_held\<lparr>InventoryContents := [], BroadcastCount := 2\<rparr>) = 0
   \<and> \<not> weight_consistent (sword_held\<lparr>InventoryContents := [], BroadcastCount := 2\<rparr>)"
proof -
  have "weight_consistent sword_held"
    by (simp add: weight_consistent_def contents_weight_def example_defs)
  moreover have "RemoveSingleInstanceOfItem (Some 0) sword_held =
       Inr (sword_held\<lparr>InventoryContents := [], BroadcastCount := 2\<rparr>)"
    by (simp add: RemoveSingleInstanceOfItem_valid example_defs)
  moreover have "InventoryTotalWeight (sword_held\<lparr>InventoryContents := [], BroadcastCount := 2\<rparr>) = 20"
    by (simp add: example_defs)
  moreover have "contents_weight (sword_held\<lparr>InventoryContents := [], BroadcastCount := 2\<rparr>) = 0"
    by (simp add: contents_weight_def)
  ultimately show ?thesis
    using sword_pickup_added [of binary32] sword_pickup_added [of binary64]
    by (simp add: weight_consistent_def)
qed

section \<open>Adding stackable items\<close>

text \<open>
  C2. Claim: \<^verbatim>\<open>HandleStackableItems\<close> tops up partial stacks, creates new stacks and returns
  the units admitted, so that with weight capacity 50 a stackable item of weight 10,
  maximum stack size 10 and quantity 6 yields \<^verbatim>\<open>AddedSome(5)\<close> from \<^verbatim>\<open>HandleAddItem\<close>.
  The code returns 0 from \<^verbatim>\<open>HandleStackableItems\<close>, so in that scenario \<^verbatim>\<open>HandleAddItem\<close>
  answers \<^verbatim>\<open>AddedNone\<close> and the world is as it was, whatever the arithmetic.
\<close>

theorem HandleAddItem_stackable_scenario_adds_none:
  "HandleAddItem fp (Some 0) (new_world [potion] 3 50) =
     Inr (AddedNone (Format
       (FromString ''Could not add {0} to the inventory. No Remaining Slots / Invalid Item!'')
       [ArgText ''Potion'']), new_world [potion] 3 50)"
  by (simp add: HandleAddItem_stackable example_defs)

section \<open>The queries\<close>

text \<open>
  With a valid item and valid entries, \<^verbatim>\<open>FindNextPartialStack\<close> is the first entry of the
  same ID that is not a full stack.
\<close>

lemma FindByPredicate_PartialStack_valid:
  assumes "a < length (Objects s)" and "\<forall>x \<in> set xs. x < length (Objects s)"
  shows "FindByPredicate_PartialStack s (Some a) xs =
     Inr (find (\<lambda>x. ID (Objects s ! x) = ID (Objects s ! a) \<and> \<not> IsFullItemStack (Objects s ! x)) xs)"
  using assms by (induction xs) (simp_all add: with_item_def)

lemma FindNextPartialStack_valid:
  assumes "a < length (Objects s)" and "entries_valid s"
  shows "FindNextPartialStack (Some a) s =
     Inr (find (\<lambda>x. ID (Objects s ! x) = ID (Objects s ! a) \<and> \<not> IsFullItemStack (Objects s ! x))
            (InventoryContents s), s)"
  using assms
  by (simp add: FindNextPartialStack_def FindByPredicate_PartialStack_valid entries_valid_def
      list_all_iff)

text \<open>With a null item, the first entry examined is the end of the search.\<close>

lemma FindNextPartialStack_null:
  assumes "InventoryContents s = x # xs" and "x < length (Objects s)"
  shows "FindNextPartialStack None s = Inl NullDereference"
  using assms by (simp add: FindNextPartialStack_def with_item_def)

text \<open>
  C3. Claim: \<^verbatim>\<open>FindNextPartialStack\<close> does not dereference a null item (the null case is
  guarded).
  The code has no such guard: the predicate reads \<^verbatim>\<open>InItem->ID\<close> for the first entry it
  examines. With one stack of potions in the inventory a null item is a null dereference;
  only an empty inventory, where the predicate never runs, returns \<^verbatim>\<open>nullptr\<close>.
\<close>

theorem FindNextPartialStack_null_is_dereferenced:
  "FindNextPartialStack None potion_held = Inl NullDereference
   \<and> FindNextPartialStack None (new_world [potion] 3 100) = Inr (None, new_world [potion] 3 100)"
  by (simp add: FindNextPartialStack_def with_item_def example_defs)

text \<open>\<^verbatim>\<open>FindNextItemByID\<close> finds the given instance when the contents list it.\<close>

lemma FindByKey_eq: "FindByKey a xs = (if a \<in> set xs then Some a else None)"
  by (induction xs) auto

text \<open>
  C9. \<^verbatim>\<open>FindMatchingItem\<close> and \<^verbatim>\<open>FindNextItemByID\<close> called with a null item return
  \<^verbatim>\<open>nullptr\<close> without a fault, and neither query changes the world (so neither the
  contents nor the total weight), whatever the argument: \<^verbatim>\<open>FindMatchingItem\<close> always
  returns, in the world it was given, and so does \<^verbatim>\<open>FindNextItemByID\<close> whenever it
  returns.
\<close>

theorem Find_queries_null_guarded:
  "FindMatchingItem None s = Inr (None, s)
   \<and> FindNextItemByID None s = Inr (None, s)
   \<and> (\<exists>r. FindMatchingItem p s = Inr (r, s))
   \<and> (case FindNextItemByID p s of Inl e \<Rightarrow> True | Inr (r, s') \<Rightarrow> s' = s)"
  by (simp add: FindMatchingItem_def FindNextItemByID_def
      split: option.splits sum.splits)

section \<open>Splitting, removing and adding\<close>

text \<open>
  C10. Whenever \<^verbatim>\<open>SplitExistingStack\<close> performs a split (one more entry fits), the change
  notification is broadcast exactly twice: once by the inner \<^verbatim>\<open>RemoveAmountOfItem\<close> and
  once by the inner \<^verbatim>\<open>AddNewItem\<close>.
\<close>

theorem SplitExistingStack_broadcasts_twice:
  assumes "a < length (Objects s)"
    and "int (length (InventoryContents s)) + 1 \<le> InventorySlotsCapacity s"
  shows "\<exists>r s1 s2.
      RemoveAmountOfItem fp (Some a) k s = Inr (r, s1)
    \<and> BroadcastCount s1 = BroadcastCount s + 1
    \<and> AddNewItem fp (Some a) k s1 = Inr s2
    \<and> BroadcastCount s2 = BroadcastCount s1 + 1
    \<and> SplitExistingStack fp (Some a) k s = Inr s2
    \<and> BroadcastCount s2 = BroadcastCount s + 2"
proof -
  obtain r s1 where rm: "RemoveAmountOfItem fp (Some a) k s = Inr (r, s1)"
    and b1: "BroadcastCount s1 = BroadcastCount s + 1"
    and l1: "length (Objects s1) = length (Objects s)"
    using assms(1) by (simp add: RemoveAmountOfItem_valid)
  from assms(1) l1 have "a < length (Objects s1)" by simp
  from AddNewItem_facts [OF this, of fp k] obtain s2 where
    ad: "AddNewItem fp (Some a) k s1 = Inr s2" and b2: "BroadcastCount s2 = Suc (BroadcastCount s1)"
    by blast
  have "SplitExistingStack fp (Some a) k s = Inr s2"
    using assms(2) rm ad by (simp add: SplitExistingStack_def)
  with rm b1 ad b2 show ?thesis by simp
qed

theorem SplitExistingStack_broadcasts_twice_witness:
  "(0::nat) < length (Objects potion_stack)
   \<and> int (length (InventoryContents potion_stack)) + 1 \<le> InventorySlotsCapacity potion_stack
   \<and> SplitExistingStack binary32 (Some 0) 2 potion_stack = Inr potion_split
   \<and> BroadcastCount potion_split = BroadcastCount potion_stack + 2"
proof -
  have h1: "(0::nat) < length (Objects potion_stack)" by (simp add: example_defs)
  have h2: "int (length (InventoryContents potion_stack)) + 1 \<le> InventorySlotsCapacity potion_stack"
    by (simp add: example_defs)
  have sp: "SplitExistingStack binary32 (Some 0) 2 potion_stack = Inr potion_split"
    by (simp add: potion_stack_split)
  from SplitExistingStack_broadcasts_twice [OF h1 h2, of binary32 2] sp
  have "BroadcastCount potion_split = BroadcastCount potion_stack + 2" by auto
  with h1 h2 sp show ?thesis by simp
qed

text \<open>
  C5. Claim: for every contained item and every amount \<open>n\<close>, \<^verbatim>\<open>RemoveAmountOfItem\<close>
  removes \<open>actual = min n quantity\<close> units: it decrements the quantity by \<open>actual\<close>,
  decreases the total weight by \<open>actual\<close> times the single weight, returns \<open>actual\<close>
  and keeps the entry in the contents.
  As amended: for every valid item pointer and every \<open>n\<close> the operation returns
  \<open>actual\<close>, replaces the total weight by the floating-point difference of the total
  weight and the floating-point product of \<open>actual\<close> and the single weight, and leaves
  the contents as they are; the new quantity is what \<^verbatim>\<open>SetQuantity\<close> makes of the
  \<^verbatim>\<open>int32\<close> difference \<open>quantity - actual\<close>, which is \<open>quantity - actual\<close> for a
  stackable item with \<open>0 \<le> n\<close> and quantity at most the maximum stack size.
\<close>

theorem RemoveAmountOfItem_removes_clamped:
  assumes "a < length (Objects s)"
  shows "\<exists>s'. RemoveAmountOfItem fp (Some a) n s = Inr (min n (Quantity (Objects s ! a)), s')
     \<and> InventoryTotalWeight s' =
         fsub fp (InventoryTotalWeight s)
           (fmul fp (fconv fp (min n (Quantity (Objects s ! a))))
              (GetItemSingleWeight (Objects s ! a)))
     \<and> InventoryContents s' = InventoryContents s
     \<and> Quantity (Objects s' ! a) =
         Quantity (SetQuantity
           (int32_wrap (Quantity (Objects s ! a) - min n (Quantity (Objects s ! a))))
           (Objects s ! a))
     \<and> (bIsStackable (ItemNumericData (Objects s ! a)) \<and> 0 \<le> n
          \<and> Quantity (Objects s ! a) \<le> MaxStackSize (ItemNumericData (Objects s ! a))
          \<and> is_int32 (MaxStackSize (ItemNumericData (Objects s ! a)))
         \<longrightarrow> Quantity (Objects s' ! a)
               = Quantity (Objects s ! a) - min n (Quantity (Objects s ! a)))"
proof -
  define q where "q = Quantity (Objects s ! a)"
  define M where "M = MaxStackSize (ItemNumericData (Objects s ! a))"
  have clamp: "max 0 (min (int32_wrap (q - min n q)) M) = q - min n q"
    if "0 \<le> n" and "q \<le> M" and "is_int32 M"
  proof (cases "n \<le> q")
    case True
    with that have "0 \<le> q - n" and "q - n \<le> M" and "is_int32 (q - n)"
      by (auto simp: is_int32_def)
    with True show ?thesis by (simp add: int32_wrap_id)
  next
    case False
    then show ?thesis by (simp add: int32_wrap_def)
  qed
  show ?thesis
    using assms clamp
    by (simp add: RemoveAmountOfItem_valid SetQuantity_def q_def M_def)
qed

text \<open>Nine of six potions asked for: six are removed, the emptied stack stays in place.\<close>

theorem RemoveAmountOfItem_removes_clamped_witness:
  "(0::nat) < length (Objects potion_stack)
   \<and> RemoveAmountOfItem binary32 (Some 0) 9 potion_stack
       = Inr (6, potion_stack\<lparr>Objects := [potion\<lparr>Quantity := 0, OwningInventory := ThisInventory\<rparr>],
                   InventoryTotalWeight := 0, BroadcastCount := 2\<rparr>)"
proof -
  have h: "(0::nat) < length (Objects potion_stack)" by (simp add: example_defs)
  from RemoveAmountOfItem_removes_clamped [OF h, of binary32 9] h show ?thesis
    by (simp add: RemoveAmountOfItem_valid binary32_def fp_eval item_defs example_defs)
qed

text \<open>
  The claim as stated fails where \<^verbatim>\<open>SetQuantity\<close> does not store what it is given, in
  either format: removing the one sword (not stackable, so the quantity is set to 1)
  returns 1 and takes its weight off the total while the quantity stays 1; removing
  \<open>-1\<close> from a full stack of ten returns \<open>-1\<close> and adds a unit's weight while the
  quantity stays 10.
\<close>

theorem RemoveAmountOfItem_quantity_counterexample:
  "Quantity (Objects sword_held ! 0) = 1
   \<and> RemoveAmountOfItem binary32 (Some 0) 1 sword_held
       = Inr (1, sword_held\<lparr>InventoryTotalWeight := 0, BroadcastCount := 2\<rparr>)
   \<and> RemoveAmountOfItem binary64 (Some 0) 1 sword_held
       = Inr (1, sword_held\<lparr>InventoryTotalWeight := 0, BroadcastCount := 2\<rparr>)
   \<and> Quantity (Objects (sword_held\<lparr>InventoryTotalWeight := 0, BroadcastCount := 2\<rparr>) ! 0)
       \<noteq> Quantity (Objects sword_held ! 0) - 1
   \<and> Quantity (Objects potion_full ! 0) = 10
   \<and> RemoveAmountOfItem binary32 (Some 0) (- 1) potion_full
       = Inr (- 1, potion_full\<lparr>InventoryTotalWeight := 110, BroadcastCount := 2\<rparr>)
   \<and> RemoveAmountOfItem binary64 (Some 0) (- 1) potion_full
       = Inr (- 1, potion_full\<lparr>InventoryTotalWeight := 110, BroadcastCount := 2\<rparr>)
   \<and> Quantity (Objects (potion_full\<lparr>InventoryTotalWeight := 110, BroadcastCount := 2\<rparr>) ! 0)
       \<noteq> Quantity (Objects potion_full ! 0) - (- 1)"
  by (simp add: RemoveAmountOfItem_valid binary32_def binary64_def fp_eval item_defs example_defs)

text \<open>
  The smallest \<^verbatim>\<open>int32\<close> asked of six potions: the difference wraps around to a negative
  number, and the stack is left empty.
\<close>

lemma RemoveAmountOfItem_int_min:
  "\<exists>s'. RemoveAmountOfItem fp (Some 0) (- 2147483648) potion_stack = Inr (- 2147483648, s')
     \<and> Quantity (Objects s' ! 0) = 0"
  by (simp add: RemoveAmountOfItem_valid int32_wrap_def SetQuantity_def example_defs)

text \<open>
  Where the inner \<^verbatim>\<open>AddNewItem\<close> takes its copy branch, the split is the one intended:
  the old stack keeps \<open>quantity - k\<close> and a fresh copy holding \<open>k\<close> is appended.
  Without a free slot nothing happens.
\<close>

lemma SplitExistingStack_copy_branch:
  "(a < length (Objects s) \<and> a \<in> set (InventoryContents s)
      \<and> bIsStackable (ItemNumericData (Objects s ! a))
      \<and> \<not> bIsCopy (Objects s ! a) \<and> \<not> bIsPickup (Objects s ! a)
      \<and> 0 \<le> k \<and> k \<le> Quantity (Objects s ! a)
      \<and> Quantity (Objects s ! a) \<le> MaxStackSize (ItemNumericData (Objects s ! a))
      \<and> is_int32 (Quantity (Objects s ! a))
      \<and> int (length (InventoryContents s)) + 1 \<le> InventorySlotsCapacity s
    \<longrightarrow> (\<exists>s1 s'.
          RemoveAmountOfItem fp (Some a) k s = Inr (k, s1)
        \<and> AddNewItem fp (Some a) k s1 = Inr s'
        \<and> SplitExistingStack fp (Some a) k s = Inr s'
        \<and> InventoryContents s' = InventoryContents s @ [length (Objects s)]
        \<and> ID (Objects s' ! a) = ID (Objects s ! a)
        \<and> ID (Objects s' ! length (Objects s)) = ID (Objects s ! a)
        \<and> Quantity (Objects s' ! a) = Quantity (Objects s ! a) - k
        \<and> Quantity (Objects s' ! length (Objects s)) = k
        \<and> two_entries_sum s' (ID (Objects s ! a)) (Quantity (Objects s ! a))))
   \<and> (int (length (InventoryContents s)) + 1 > InventorySlotsCapacity s
    \<longrightarrow> SplitExistingStack fp p k s = Inr s)"
proof (intro conjI impI)
  assume "int (length (InventoryContents s)) + 1 > InventorySlotsCapacity s"
  then show "SplitExistingStack fp p k s = Inr s" by (simp add: SplitExistingStack_def)
next
  assume h: "a < length (Objects s) \<and> a \<in> set (InventoryContents s)
      \<and> bIsStackable (ItemNumericData (Objects s ! a))
      \<and> \<not> bIsCopy (Objects s ! a) \<and> \<not> bIsPickup (Objects s ! a)
      \<and> 0 \<le> k \<and> k \<le> Quantity (Objects s ! a)
      \<and> Quantity (Objects s ! a) \<le> MaxStackSize (ItemNumericData (Objects s ! a))
      \<and> is_int32 (Quantity (Objects s ! a))
      \<and> int (length (InventoryContents s)) + 1 \<le> InventorySlotsCapacity s"
  define it where "it = Objects s ! a"
  define s1 where "s1 = s\<lparr>Objects := (Objects s)[a := it\<lparr>Quantity := Quantity it - k\<rparr>],
           InventoryTotalWeight := fsub fp (InventoryTotalWeight s)
             (fmul fp (fconv fp k) (GetItemSingleWeight it)),
           BroadcastCount := Suc (BroadcastCount s)\<rparr>"
  define s' where "s' = s1\<lparr>Objects := Objects s1 @ [it\<lparr>Quantity := k, bIsCopy := True,
                 OwningInventory := ThisInventory\<rparr>],
           InventoryContents := InventoryContents s1 @ [length (Objects s1)],
           InventoryTotalWeight := fadd fp (InventoryTotalWeight s1)
             (fmul fp (fconv fp k) (Weight (ItemNumericData it))),
           BroadcastCount := Suc (BroadcastCount s1)\<rparr>"
  from h have a: "a < length (Objects s)" by simp
  from h have "is_int32 (Quantity (Objects s ! a) - k)"
    by (auto simp: is_int32_def)
  then have wr: "int32_wrap (Quantity (Objects s ! a) - k) = Quantity (Objects s ! a) - k"
    by (rule int32_wrap_id)
  have rm: "RemoveAmountOfItem fp (Some a) k s = Inr (k, s1)"
    using h wr
    by (simp add: RemoveAmountOfItem_valid s1_def it_def SetQuantity_def min_def max_def)
  have a1: "a < length (Objects s1)" using a by (simp add: s1_def)
  have it1: "Objects s1 ! a = it\<lparr>Quantity := Quantity it - k\<rparr>" using a by (simp add: s1_def)
  have ad: "AddNewItem fp (Some a) k s1 = Inr s'"
    using h a1 it1
    by (simp add: AddNewItem_copy s'_def it_def item_defs min_def max_def)
  have sp: "SplitExistingStack fp (Some a) k s = Inr s'"
    using h rm ad by (simp add: SplitExistingStack_def)
  have c: "InventoryContents s' = InventoryContents s @ [length (Objects s)]"
    by (simp add: s'_def s1_def)
  have qa: "Objects s' ! a = it\<lparr>Quantity := Quantity it - k\<rparr>"
    using a by (simp add: s'_def s1_def nth_append)
  have qn: "Objects s' ! length (Objects s) = it\<lparr>Quantity := k, bIsCopy := True,
                 OwningInventory := ThisInventory\<rparr>"
    by (simp add: s'_def s1_def nth_append)
  from h obtain i where i: "i < length (InventoryContents s)" "InventoryContents s ! i = a"
    by (auto simp: in_set_conv_nth)
  have "two_entries_sum s' (ID it) (Quantity it)"
  proof (rule two_entries_sumI [of i _ "length (InventoryContents s)"])
    show "i < length (InventoryContents s')" using i c by simp
    show "length (InventoryContents s) < length (InventoryContents s')" using c by simp
    show "i \<noteq> length (InventoryContents s)" using i by simp
    show "ID (Objects s' ! (InventoryContents s' ! i)) = ID it"
      using i c qa by (simp add: nth_append)
    show "ID (Objects s' ! (InventoryContents s' ! length (InventoryContents s))) = ID it"
      using c qn by simp
    show "Quantity (Objects s' ! (InventoryContents s' ! i))
        + Quantity (Objects s' ! (InventoryContents s' ! length (InventoryContents s))) = Quantity it"
      using i c qa qn by (simp add: nth_append)
  qed
  with rm ad sp c qa qn
  show "\<exists>s1 s'.
          RemoveAmountOfItem fp (Some a) k s = Inr (k, s1)
        \<and> AddNewItem fp (Some a) k s1 = Inr s'
        \<and> SplitExistingStack fp (Some a) k s = Inr s'
        \<and> InventoryContents s' = InventoryContents s @ [length (Objects s)]
        \<and> ID (Objects s' ! a) = ID (Objects s ! a)
        \<and> ID (Objects s' ! length (Objects s)) = ID (Objects s ! a)
        \<and> Quantity (Objects s' ! a) = Quantity (Objects s ! a) - k
        \<and> Quantity (Objects s' ! length (Objects s)) = k
        \<and> two_entries_sum s' (ID (Objects s ! a)) (Quantity (Objects s ! a))"
    unfolding it_def [symmetric] by (intro exI [of _ s1] exI [of _ s']) simp
qed

text \<open>
  Where the stack carries a provenance flag, the inner \<^verbatim>\<open>AddNewItem\<close> absorbs the stack
  itself: no object is created and the contents list the stack a second time.
\<close>

lemma SplitExistingStack_absorbs_flagged:
  assumes "a < length (Objects s)"
    and "bIsCopy (Objects s ! a) \<or> bIsPickup (Objects s ! a)"
    and "int (length (InventoryContents s)) + 1 \<le> InventorySlotsCapacity s"
  shows "\<exists>s'. SplitExistingStack fp (Some a) k s = Inr s'
     \<and> InventoryContents s' = InventoryContents s @ [a]
     \<and> length (Objects s') = length (Objects s)"
proof -
  obtain r s1 where rm: "RemoveAmountOfItem fp (Some a) k s = Inr (r, s1)"
    and l1: "length (Objects s1) = length (Objects s)"
    and c1: "InventoryContents s1 = InventoryContents s"
    and f1: "bIsCopy (Objects s1 ! a) = bIsCopy (Objects s ! a)"
      "bIsPickup (Objects s1 ! a) = bIsPickup (Objects s ! a)"
    using assms(1) by (simp add: RemoveAmountOfItem_valid SetQuantity_def)
  from assms(1) l1 have a1: "a < length (Objects s1)" by simp
  from assms(2) f1 have fl: "bIsCopy (Objects s1 ! a) \<or> bIsPickup (Objects s1 ! a)" by simp
  from assms(3) rm have "SplitExistingStack fp (Some a) k s = AddNewItem fp (Some a) k s1"
    by (simp add: SplitExistingStack_def)
  then show ?thesis
    using l1 c1 by (simp add: AddNewItem_absorb [OF a1 fl])
qed

text \<open>
  C4. Claim: for every contained item with quantity at least \<open>k\<close>, \<^verbatim>\<open>SplitExistingStack\<close>
  with a free slot performs \<^verbatim>\<open>RemoveAmountOfItem\<close> then \<^verbatim>\<open>AddNewItem\<close>, after which two
  entries of the item's ID have quantities that sum to the original quantity; without a
  free slot it does nothing.
  The code does not for a contained stack that carries the copy flag, which is every
  stack \<^verbatim>\<open>AddNewItem\<close> created through \<^verbatim>\<open>CreateItemCopy\<close>. Six potions added from a
  template give the world \<open>potion_held\<close>: one stack of six, at address 1, and two free
  slots. Splitting two off that stack makes \<^verbatim>\<open>AddNewItem\<close> absorb the stack itself, in
  either format: the contents list the object at address 1 twice, its quantity is 2, and
  no two entries sum to 6.
\<close>

theorem SplitExistingStack_lists_copy_flagged_stack_twice:
  "AddNewItem binary32 (Some 0) 6 (new_world [potion] 3 100) = Inr potion_held
   \<and> AddNewItem binary64 (Some 0) 6 (new_world [potion] 3 100) = Inr potion_held
   \<and> 1 \<in> set (InventoryContents potion_held)
   \<and> Quantity (Objects potion_held ! 1) = 6
   \<and> int (length (InventoryContents potion_held)) + 1 \<le> InventorySlotsCapacity potion_held
   \<and> SplitExistingStack binary32 (Some 1) 2 potion_held = Inr potion_aliased
   \<and> SplitExistingStack binary64 (Some 1) 2 potion_held = Inr potion_aliased
   \<and> InventoryContents potion_aliased = [1, 1]
   \<and> Quantity (Objects potion_aliased ! 1) = 2
   \<and> \<not> two_entries_sum potion_aliased (ID (Objects potion_held ! 1)) 6"
proof -
  have "\<not> two_entries_sum potion_aliased (ID (Objects potion_held ! 1)) 6"
    by (auto simp: two_entries_sum_def example_defs less_Suc_eq numeral_2_eq_2)
  then show ?thesis
    using potion_held_reachable [of binary32] potion_held_reachable [of binary64]
      potion_held_split [of binary32] potion_held_split [of binary64]
    by (simp add: example_defs)
qed




section \<open>Adding items that do not stack\<close>

text \<open>
  C6. Claim: \<^verbatim>\<open>HandleNonStackableItems\<close> returns \<^verbatim>\<open>AddedNone\<close> if and only if the single
  weight is non-positive, or total weight plus single weight exceeds the weight capacity,
  or the contents are at the slot capacity; otherwise it calls \<^verbatim>\<open>AddNewItem(item, 1)\<close>
  and returns \<^verbatim>\<open>AddedAll(1)\<close>; the weight rejection's message says the item has no
  weight.
  As amended: the weight rejection is for a single weight that \<^verbatim>\<open>IsNearlyZero\<close> accepts
  (absolute value at most the tolerance) or that is negative; the capacity rejection is
  for the floating-point sum of total weight and single weight being greater than the
  capacity; the slot rejection is for \<^verbatim>\<open>Num() + 1 > InventorySlotsCapacity\<close>; the rest as
  claimed, for every valid item pointer and every format. A rejection leaves the world
  unchanged.
\<close>

theorem HandleNonStackableItems_outcome:
  assumes "a < length (Objects s)"
  shows "\<exists>r s'. HandleNonStackableItems fp (Some a) s = Inr (r, s')
     \<and> (is_AddedNone r \<longleftrightarrow>
          ((IsNearlyZero fp (GetItemSingleWeight (Objects s ! a))
              \<or> GetItemSingleWeight (Objects s ! a) < 0)
           \<or> fadd fp (InventoryTotalWeight s) (GetItemSingleWeight (Objects s ! a))
              > GetWeightCapacity s
           \<or> int (length (InventoryContents s)) + 1 > InventorySlotsCapacity s))
     \<and> (IsNearlyZero fp (GetItemSingleWeight (Objects s ! a))
            \<or> GetItemSingleWeight (Objects s ! a) < 0 \<longrightarrow>
          r = AddedNone (Format
                (FromString ''Could not add {0} to the inventory. Item Has No Weight!'')
                [ArgText (ItemName (ItemTextData (Objects s ! a)))]))
     \<and> (is_AddedNone r \<longrightarrow> s' = s)
     \<and> (\<not> is_AddedNone r \<longrightarrow>
          r = AddedAll 1 (Format
                (FromString ''Successfully added {0} to the inventory!'')
                [ArgText (ItemName (ItemTextData (Objects s ! a)))])
          \<and> AddNewItem fp (Some a) 1 s = Inr s')"
proof (cases "(IsNearlyZero fp (GetItemSingleWeight (Objects s ! a))
              \<or> GetItemSingleWeight (Objects s ! a) < 0)
           \<or> fadd fp (InventoryTotalWeight s) (GetItemSingleWeight (Objects s ! a))
              > GetWeightCapacity s
           \<or> int (length (InventoryContents s)) + 1 > InventorySlotsCapacity s")
  case True
  from HandleNonStackableItems_rejects [OF assms True] obtain m where
    r: "HandleNonStackableItems fp (Some a) s = Inr (AddedNone m, s)" by blast
  have "IsNearlyZero fp (GetItemSingleWeight (Objects s ! a))
            \<or> GetItemSingleWeight (Objects s ! a) < 0 \<longrightarrow>
          AddedNone m = AddedNone (Format
                (FromString ''Could not add {0} to the inventory. Item Has No Weight!'')
                [ArgText (ItemName (ItemTextData (Objects s ! a)))])"
    using r HandleNonStackableItems_no_weight [OF assms, of fp] by auto
  with r True show ?thesis by simp
next
  case False
  then have "\<not> (IsNearlyZero fp (GetItemSingleWeight (Objects s ! a))
              \<or> GetItemSingleWeight (Objects s ! a) < 0)"
    and "\<not> fadd fp (InventoryTotalWeight s) (GetItemSingleWeight (Objects s ! a))
              > GetWeightCapacity s"
    and "\<not> int (length (InventoryContents s)) + 1 > InventorySlotsCapacity s"
    by blast+
  from HandleNonStackableItems_adds [OF assms this] False show ?thesis
    by auto
qed

text \<open>The sword (weight 20) is added to the empty inventory in full.\<close>

theorem HandleNonStackableItems_outcome_witness:
  "(0::nat) < length (Objects (new_world [sword] 3 100))
   \<and> HandleNonStackableItems binary32 (Some 0) (new_world [sword] 3 100) =
       Inr (AddedAll 1 (Format (FromString ''Successfully added {0} to the inventory!'')
              [ArgText ''Sword'']), sword_held)"
proof -
  have h: "(0::nat) < length (Objects (new_world [sword] 3 100))"
    by (simp add: example_defs)
  have c: "\<not> ((IsNearlyZero binary32 (GetItemSingleWeight (Objects (new_world [sword] 3 100) ! 0))
              \<or> GetItemSingleWeight (Objects (new_world [sword] 3 100) ! 0) < 0)
           \<or> fadd binary32 (InventoryTotalWeight (new_world [sword] 3 100))
                (GetItemSingleWeight (Objects (new_world [sword] 3 100) ! 0))
              > GetWeightCapacity (new_world [sword] 3 100)
           \<or> int (length (InventoryContents (new_world [sword] 3 100))) + 1
              > InventorySlotsCapacity (new_world [sword] 3 100))"
    by (simp add: binary32_def fp_eval item_defs example_defs)
  have n: "ItemName (ItemTextData (Objects (new_world [sword] 3 100) ! 0)) = ''Sword''"
    by (simp add: example_defs)
  have ad: "AddNewItem binary32 (Some 0) 1 (new_world [sword] 3 100) = Inr sword_held"
    by (simp add: AddNewItem_absorb binary32_def fp_eval item_defs example_defs)
  from HandleNonStackableItems_outcome [OF h, of binary32] obtain r s' where
    "HandleNonStackableItems binary32 (Some 0) (new_world [sword] 3 100) = Inr (r, s')"
    and "\<not> is_AddedNone r"
    and "\<not> is_AddedNone r \<longrightarrow>
          r = AddedAll 1 (Format
                (FromString ''Successfully added {0} to the inventory!'')
                [ArgText (ItemName (ItemTextData (Objects (new_world [sword] 3 100) ! 0)))])
          \<and> AddNewItem binary32 (Some 0) 1 (new_world [sword] 3 100) = Inr s'"
    using c by blast
  with h n ad show ?thesis by simp
qed

text \<open>
  The claim as stated fails in both directions, in either format. The dust has a
  positive weight within the tolerance: the inventory is empty with room to spare, and
  the answer is \<^verbatim>\<open>AddedNone\<close> with the no-weight message. The grain (weight above the
  tolerance) is offered to an inventory whose total weight is its capacity, \<open>2^27\<close>: the
  floating-point sum rounds to the capacity, so the grain is added, the answer is
  \<^verbatim>\<open>AddedAll(1)\<close>, and the total weight is still the capacity.
\<close>

theorem HandleNonStackableItems_tiny_weight_counterexample:
  "HandleNonStackableItems binary32 (Some 0) (new_world [dust] 3 100) =
     Inr (AddedNone (Format
       (FromString ''Could not add {0} to the inventory. Item Has No Weight!'')
       [ArgText ''Dust'']), new_world [dust] 3 100)
   \<and> HandleNonStackableItems binary64 (Some 0) (new_world [dust] 3 100) =
     Inr (AddedNone (Format
       (FromString ''Could not add {0} to the inventory. Item Has No Weight!'')
       [ArgText ''Dust'']), new_world [dust] 3 100)
   \<and> 0 < GetItemSingleWeight (Objects (new_world [dust] 3 100) ! 0)
   \<and> InventoryTotalWeight (new_world [dust] 3 100)
        + GetItemSingleWeight (Objects (new_world [dust] 3 100) ! 0)
      \<le> GetWeightCapacity (new_world [dust] 3 100)
   \<and> int (length (InventoryContents (new_world [dust] 3 100)))
      < InventorySlotsCapacity (new_world [dust] 3 100)
   \<and> HandleNonStackableItems binary32 (Some 1) ingot_held =
     Inr (AddedAll 1 (Format (FromString ''Successfully added {0} to the inventory!'')
            [ArgText ''Grain'']),
          ingot_held\<lparr>Objects := [ingot, grain\<lparr>bIsPickup := False, OwningInventory := ThisInventory\<rparr>],
                      InventoryContents := [0, 1], BroadcastCount := 2\<rparr>)
   \<and> HandleNonStackableItems binary64 (Some 1) ingot_held =
     Inr (AddedAll 1 (Format (FromString ''Successfully added {0} to the inventory!'')
            [ArgText ''Grain'']),
          ingot_held\<lparr>Objects := [ingot, grain\<lparr>bIsPickup := False, OwningInventory := ThisInventory\<rparr>],
                      InventoryContents := [0, 1], BroadcastCount := 2\<rparr>)
   \<and> InventoryTotalWeight ingot_held + GetItemSingleWeight (Objects ingot_held ! 1)
      > GetWeightCapacity ingot_held"
proof -
  have d32: "HandleNonStackableItems binary32 (Some 0) (new_world [dust] 3 100) =
     Inr (AddedNone (Format
       (FromString ''Could not add {0} to the inventory. Item Has No Weight!'')
       [ArgText ''Dust'']), new_world [dust] 3 100)"
    by (simp add: HandleNonStackableItems_no_weight binary32_def fp_eval item_defs example_defs)
  have d64: "HandleNonStackableItems binary64 (Some 0) (new_world [dust] 3 100) =
     Inr (AddedNone (Format
       (FromString ''Could not add {0} to the inventory. Item Has No Weight!'')
       [ArgText ''Dust'']), new_world [dust] 3 100)"
    by (simp add: HandleNonStackableItems_no_weight binary64_def fp_eval item_defs example_defs)
  have g32: "round_to 24 (1 / 67108864) = 1 / 67108864"
    using round_to_binade [of "- 26" "1 / 67108864" 24]
    by (simp add: pow2_def round_half_even_def)
  have g64: "round_to 53 (1 / 67108864) = 1 / 67108864"
    using round_to_binade [of "- 26" "1 / 67108864" 53]
    by (simp add: pow2_def round_half_even_def)
  have s32: "round_to 24 (134217728 + 1 / 67108864) = 134217728"
    using round_to_binade [of 27 "134217728 + 1 / 67108864" 24]
    by (simp add: pow2_def round_half_even_def)
  have s64: "round_to 53 (134217728 + 1 / 67108864) = 134217728"
    using round_to_binade [of 27 "134217728 + 1 / 67108864" 53]
    by (simp add: pow2_def round_half_even_def)
  have a32: "fadd binary32 134217728 (1 / 67108864) = 134217728"
    using s32 by (simp add: binary32_def ieee_def fadd_def)
  have a64: "fadd binary64 134217728 (1 / 67108864) = 134217728"
    using s64 by (simp add: binary64_def ieee_def fadd_def)
  have m32: "fmul binary32 (fconv binary32 1) (1 / 67108864) = 1 / 67108864"
    using g32 by (simp add: binary32_def ieee_def fmul_def fconv_def)
  have m64: "fmul binary64 (fconv binary64 1) (1 / 67108864) = 1 / 67108864"
    using g64 by (simp add: binary64_def ieee_def fmul_def fconv_def)
  have z32: "\<not> IsNearlyZero binary32 (1 / 67108864)"
    by (simp add: IsNearlyZero_def small_number_binary32)
  have z64: "\<not> IsNearlyZero binary64 (1 / 67108864)"
    by (simp add: IsNearlyZero_def small_number_binary64)
  have i32: "HandleNonStackableItems binary32 (Some 1) ingot_held =
     Inr (AddedAll 1 (Format (FromString ''Successfully added {0} to the inventory!'')
            [ArgText ''Grain'']),
          ingot_held\<lparr>Objects := [ingot, grain\<lparr>bIsPickup := False, OwningInventory := ThisInventory\<rparr>],
                      InventoryContents := [0, 1], BroadcastCount := 2\<rparr>)"
    by (simp add: HandleNonStackableItems_valid AddNewItem_absorb GetWeightCapacity_def
        item_defs ingot_held_def ingot_def grain_def z32 a32 m32)
  have i64: "HandleNonStackableItems binary64 (Some 1) ingot_held =
     Inr (AddedAll 1 (Format (FromString ''Successfully added {0} to the inventory!'')
            [ArgText ''Grain'']),
          ingot_held\<lparr>Objects := [ingot, grain\<lparr>bIsPickup := False, OwningInventory := ThisInventory\<rparr>],
                      InventoryContents := [0, 1], BroadcastCount := 2\<rparr>)"
    by (simp add: HandleNonStackableItems_valid AddNewItem_absorb GetWeightCapacity_def
        item_defs ingot_held_def ingot_def grain_def z64 a64 m64)
  have rest: "0 < GetItemSingleWeight (Objects (new_world [dust] 3 100) ! 0)
   \<and> InventoryTotalWeight (new_world [dust] 3 100)
        + GetItemSingleWeight (Objects (new_world [dust] 3 100) ! 0)
      \<le> GetWeightCapacity (new_world [dust] 3 100)
   \<and> int (length (InventoryContents (new_world [dust] 3 100)))
      < InventorySlotsCapacity (new_world [dust] 3 100)
   \<and> InventoryTotalWeight ingot_held + GetItemSingleWeight (Objects ingot_held ! 1)
      > GetWeightCapacity ingot_held"
    by (simp add: GetWeightCapacity_def item_defs example_defs)
  from d32 d64 i32 i64 rest show ?thesis by blast
qed

section \<open>The slot limit\<close>

text \<open>
  C7. After every operation of the public operation set (\<^verbatim>\<open>HandleAddItem\<close>,
  \<^verbatim>\<open>RemoveAmountOfItem\<close>, \<^verbatim>\<open>RemoveSingleInstanceOfItem\<close>, \<^verbatim>\<open>SplitExistingStack\<close>) the
  number of entries in the contents is at most the slot capacity, given it was before
  the operation.
\<close>

theorem operations_respect_slots:
  assumes "slots_respected s"
  shows "(HandleAddItem fp p s = Inr (r, s') \<longrightarrow> slots_respected s')
     \<and> (RemoveAmountOfItem fp p n s = Inr (k, s') \<longrightarrow> slots_respected s')
     \<and> (RemoveSingleInstanceOfItem p s = Inr s' \<longrightarrow> slots_respected s')
     \<and> (SplitExistingStack fp p n s = Inr s' \<longrightarrow> slots_respected s')"
  using assms
  by (blast intro: HandleAddItem_slots RemoveAmountOfItem_slots
      RemoveSingleInstanceOfItem_slots SplitExistingStack_slots)

text \<open>
  One run of each operation: the sword picked up, one potion of six removed, the stack
  removed, two potions split off.
\<close>

theorem operations_respect_slots_witness:
  "slots_respected (new_world [sword] 3 100)
   \<and> HandleAddItem binary32 (Some 0) (new_world [sword] 3 100) =
       Inr (AddedAll 1 (Format (FromString ''Successfully added {0} to the inventory!'')
              [ArgText ''Sword'']), sword_held)
   \<and> slots_respected sword_held
   \<and> slots_respected potion_stack
   \<and> RemoveAmountOfItem binary32 (Some 0) 1 potion_stack =
       Inr (1, potion_stack\<lparr>Objects := [potion\<lparr>Quantity := 5, OwningInventory := ThisInventory\<rparr>],
                 InventoryTotalWeight := 50, BroadcastCount := 2\<rparr>)
   \<and> slots_respected (potion_stack\<lparr>Objects := [potion\<lparr>Quantity := 5, OwningInventory := ThisInventory\<rparr>],
                 InventoryTotalWeight := 50, BroadcastCount := 2\<rparr>)
   \<and> RemoveSingleInstanceOfItem (Some 0) potion_stack =
       Inr (potion_stack\<lparr>InventoryContents := [], BroadcastCount := 2\<rparr>)
   \<and> slots_respected (potion_stack\<lparr>InventoryContents := [], BroadcastCount := 2\<rparr>)
   \<and> SplitExistingStack binary32 (Some 0) 2 potion_stack = Inr potion_split
   \<and> slots_respected potion_split"
proof -
  have h0: "slots_respected (new_world [sword] 3 100)"
    by (simp add: slots_respected_def example_defs)
  have h1: "slots_respected potion_stack"
    by (simp add: slots_respected_def example_defs)
  have ha: "HandleAddItem binary32 (Some 0) (new_world [sword] 3 100) =
       Inr (AddedAll 1 (Format (FromString ''Successfully added {0} to the inventory!'')
              [ArgText ''Sword'']), sword_held)"
    by (simp add: sword_pickup_added)
  have rm: "RemoveAmountOfItem binary32 (Some 0) 1 potion_stack =
       Inr (1, potion_stack\<lparr>Objects := [potion\<lparr>Quantity := 5, OwningInventory := ThisInventory\<rparr>],
                 InventoryTotalWeight := 50, BroadcastCount := 2\<rparr>)"
    by (simp add: RemoveAmountOfItem_valid binary32_def fp_eval item_defs example_defs)
  have rs: "RemoveSingleInstanceOfItem (Some 0) potion_stack =
       Inr (potion_stack\<lparr>InventoryContents := [], BroadcastCount := 2\<rparr>)"
    by (simp add: RemoveSingleInstanceOfItem_valid example_defs)
  have sp: "SplitExistingStack binary32 (Some 0) 2 potion_stack = Inr potion_split"
    by (simp add: potion_stack_split)
  from operations_respect_slots [OF h0] ha
  have "slots_respected sword_held" by blast
  moreover from operations_respect_slots [OF h1] rm
  have "slots_respected (potion_stack\<lparr>Objects := [potion\<lparr>Quantity := 5, OwningInventory := ThisInventory\<rparr>],
                 InventoryTotalWeight := 50, BroadcastCount := 2\<rparr>)" by blast
  moreover from operations_respect_slots [OF h1] rs
  have "slots_respected (potion_stack\<lparr>InventoryContents := [], BroadcastCount := 2\<rparr>)" by blast
  moreover from operations_respect_slots [OF h1] sp
  have "slots_respected potion_split" by blast
  ultimately show ?thesis using h0 h1 ha rm rs sp by blast
qed

end
